theory Spec2Isabelle
  imports Main "HOL-Library.Word"
begin

unbundle bit_operations_syntax

section \<open>Machine types and outcomes\<close>

type_synonym byte = "8 word"
type_synonym u32 = "32 word"
type_synonym u64 = "64 word"

text \<open>
  Go's \<^verbatim>\<open>[32]byte\<close> (\<^verbatim>\<open>common.Hash\<close>, preimage keys, the chunk returned by
  \<^verbatim>\<open>ReadPreimage\<close>): a byte sequence whose length is 32 by its type. \<open>bytes h\<close> is the
  slice \<^verbatim>\<open>h[:]\<close>.
\<close>

typedef bytes32 = "{bs :: byte list. length bs = 32}"
  morphisms bytes Bytes32
  by (rule exI [of _ "replicate 32 0"]) simp

text \<open>Go's \<^verbatim>\<open>[32]uint64\<close>, the register file of a thread.\<close>

typedef regs32 = "{rs :: u64 list. length rs = 32}"
  morphisms regs Regs32
  by (rule exI [of _ "replicate 32 0"]) simp

text \<open>
  A Go call returns its value, returns a non-nil \<^verbatim>\<open>error\<close>, or panics. The panics are the
  explicit \<^verbatim>\<open>panic(...)\<close> calls of the source and the run-time panics of a slice expression
  out of range and of \<^verbatim>\<open>make\<close> with a length that does not fit \<^verbatim>\<open>int\<close>.
\<close>

datatype panic =
    ActiveThreadStackEmpty
  | InvalidEmptyThreadStack
  | InvalidWitnessLengthPanic
  | SliceBoundsOutOfRange
  | MakeSliceLenOutOfRange

datatype error =
    InvalidWitnessLength nat nat
  | InvalidPTLoadFileSize nat u64 u64
  | DifferentFileSize nat u64 u64
  | OverlapsWithHeap nat u64 u64 u64
  | FailedToReadSegment nat

datatype 'a result = Val 'a | Err error | Panic panic

section \<open>Byte encodings\<close>

text \<open>\<^verbatim>\<open>binary.BigEndian.AppendUint64\<close> and \<^verbatim>\<open>binary.BigEndian.Uint64\<close> of Go's standard library.\<close>

definition AppendUint64 :: "byte list \<Rightarrow> u64 \<Rightarrow> byte list" where
  "AppendUint64 b v = b @ [ucast (drop_bit 56 v), ucast (drop_bit 48 v), ucast (drop_bit 40 v),
     ucast (drop_bit 32 v), ucast (drop_bit 24 v), ucast (drop_bit 16 v), ucast (drop_bit 8 v),
     ucast v]"

definition Uint64 :: "byte list \<Rightarrow> u64" where
  "Uint64 b = ucast (b ! 7) OR push_bit 8 (ucast (b ! 6)) OR push_bit 16 (ucast (b ! 5)) OR
     push_bit 24 (ucast (b ! 4)) OR push_bit 32 (ucast (b ! 3)) OR push_bit 40 (ucast (b ! 2)) OR
     push_bit 48 (ucast (b ! 1)) OR push_bit 56 (ucast (b ! 0))"

text \<open>
  Modelled from the spec: \<^verbatim>\<open>run.AppendBoolToWitness\<close> (package \<^verbatim>\<open>cannon/run\<close>) is not among
  the sources. The spec's witness layout gives a boolean one byte, "0/1".
\<close>

definition AppendBoolToWitness :: "byte list \<Rightarrow> bool \<Rightarrow> byte list" where
  "AppendBoolToWitness witnessData boolVal = witnessData @ [if boolVal then 1 else 0]"

section \<open>Keccak-256\<close>

text \<open>
  \<^verbatim>\<open>crypto.Keccak256Hash\<close> is go-ethereum's (legacy Keccak-256 of \<^verbatim>\<open>x/crypto/sha3\<close>), not
  code of this repository. It is written out here after the Keccak reference: a 1600-bit
  state of 25 little-endian lanes (lane \<open>(x, y)\<close> at index \<open>x + 5 * y\<close>), rate 136 bytes,
  padding \<^verbatim>\<open>0x01 .. 0x80\<close>, 24 rounds of theta, rho and pi, chi, iota, 32 bytes of output.
\<close>

definition rotl64 :: "u64 \<Rightarrow> nat \<Rightarrow> u64" where
  "rotl64 w n = push_bit n w OR drop_bit (64 - n) w"

definition keccak_rc :: "u64 list" where
  "keccak_rc =
    [0x0000000000000001, 0x0000000000008082, 0x800000000000808A, 0x8000000080008000,
     0x000000000000808B, 0x0000000080000001, 0x8000000080008081, 0x8000000000008009,
     0x000000000000008A, 0x0000000000000088, 0x0000000080008009, 0x000000008000000A,
     0x000000008000808B, 0x800000000000008B, 0x8000000000008089, 0x8000000000008003,
     0x8000000000008002, 0x8000000000000080, 0x000000000000800A, 0x800000008000000A,
     0x8000000080008081, 0x8000000000008080, 0x0000000080000001, 0x8000000080008008]"

definition keccak_rot :: "nat list" where
  "keccak_rot =
    [0, 1, 62, 28, 27,  36, 44, 6, 55, 20,  3, 10, 43, 25, 39,
     41, 45, 15, 21, 8,  18, 2, 61, 56, 14]"

definition theta :: "u64 list \<Rightarrow> u64 list" where
  "theta a =
    (let c = map (\<lambda>x. a ! x XOR a ! (x + 5) XOR a ! (x + 10) XOR a ! (x + 15) XOR a ! (x + 20))
               [0..<5];
         d = map (\<lambda>x. c ! ((x + 4) mod 5) XOR rotl64 (c ! ((x + 1) mod 5)) 1) [0..<5]
     in map (\<lambda>i. a ! i XOR d ! (i mod 5)) [0..<25])"

definition rho_pi :: "u64 list \<Rightarrow> u64 list" where
  "rho_pi a =
    map (\<lambda>j. let x' = j mod 5; y' = j div 5; x = (x' + 3 * y') mod 5; y = x'
              in rotl64 (a ! (x + 5 * y)) (keccak_rot ! (x + 5 * y))) [0..<25]"

definition chi :: "u64 list \<Rightarrow> u64 list" where
  "chi b =
    map (\<lambda>i. let x = i mod 5; y = i div 5
              in b ! i XOR (NOT (b ! ((x + 1) mod 5 + 5 * y)) AND b ! ((x + 2) mod 5 + 5 * y)))
      [0..<25]"

definition iota :: "u64 \<Rightarrow> u64 list \<Rightarrow> u64 list" where
  "iota rc a = (a ! 0 XOR rc) # tl a"

definition keccak_round :: "u64 list \<Rightarrow> u64 \<Rightarrow> u64 list" where
  "keccak_round a rc = iota rc (chi (rho_pi (theta a)))"

definition keccak_f :: "u64 list \<Rightarrow> u64 list" where
  "keccak_f a = foldl keccak_round a keccak_rc"

definition le_lane :: "byte list \<Rightarrow> u64" where
  "le_lane bs = foldr (\<lambda>b acc. push_bit 8 acc OR ucast b) bs 0"

definition lane_bytes :: "u64 \<Rightarrow> byte list" where
  "lane_bytes w = map (\<lambda>i. ucast (drop_bit (8 * i) w)) [0..<8]"

fun chunks :: "nat \<Rightarrow> nat \<Rightarrow> 'a list \<Rightarrow> 'a list list" where
  "chunks 0 k xs = []"
| "chunks (Suc n) k xs = take k xs # chunks n k (drop k xs)"

definition absorb_block :: "u64 list \<Rightarrow> byte list \<Rightarrow> u64 list" where
  "absorb_block st blk =
    keccak_f (map (\<lambda>i. if i < 17 then st ! i XOR le_lane (take 8 (drop (8 * i) blk)) else st ! i)
                [0..<25])"

definition keccak_pad :: "byte list \<Rightarrow> byte list" where
  "keccak_pad m =
    (let q = 136 - length m mod 136
     in if q = 1 then m @ [0x81] else m @ [0x01] @ replicate (q - 2) 0 @ [0x80])"

definition keccak256 :: "byte list \<Rightarrow> byte list" where
  "keccak256 m =
    (let p = keccak_pad m;
         st = foldl absorb_block (replicate 25 0) (chunks (length p div 136) 136 p)
     in concat (map (\<lambda>i. lane_bytes (st ! i)) [0..<4]))"

definition Keccak256Hash :: "byte list \<Rightarrow> bytes32" where
  "Keccak256Hash data = Bytes32 (keccak256 data)"

section \<open>Threads\<close>

definition SERIALIZED_THREAD_SIZE :: nat where
  "SERIALIZED_THREAD_SIZE = 322"


text \<open>\<^verbatim>\<open>common.HexToHash("0xad3228b6...5fb5")\<close>.\<close>

definition EmptyThreadsRoot :: bytes32 where
  "EmptyThreadsRoot = Bytes32
    [0xad, 0x32, 0x28, 0xb6, 0x76, 0xf7, 0xd3, 0xcd, 0x42, 0x84, 0xa5, 0x44, 0x3f, 0x17, 0xf1, 0x96,
     0x2b, 0x36, 0xe4, 0x91, 0xb3, 0x0a, 0x40, 0xb2, 0x40, 0x58, 0x49, 0xe5, 0x97, 0xba, 0x5f, 0xb5]"

text \<open>\<^verbatim>\<open>mipsevm64.CpuScalars\<close>: the four 64-bit scalars of a thread.\<close>

record CpuScalars =
  PC :: u64
  NextPC :: u64
  LO :: u64
  HI :: u64

record ThreadState =
  ThreadId :: u64
  ExitCode :: byte
  Exited :: bool
  FutexAddr :: u64
  FutexVal :: u64
  FutexTimeoutStep :: u64
  Cpu :: CpuScalars
  Registers :: regs32

text \<open>
  Modelled from the spec: \<^verbatim>\<open>exec.FutexEmptyAddr\<close> is not among the sources; the spec gives
  the sentinel as \<open>2^64 - 1\<close>.
\<close>

definition FutexEmptyAddr :: u64 where
  "FutexEmptyAddr = NOT 0"

definition CreateEmptyThread :: ThreadState where
  "CreateEmptyThread =
    (let initThreadId = 0
     in \<lparr>ThreadId = initThreadId, ExitCode = 0, Exited = False,
         FutexAddr = FutexEmptyAddr, FutexVal = 0, FutexTimeoutStep = 0,
         Cpu = \<lparr>PC = 0, NextPC = 4, LO = 0, HI = 0\<rparr>,
         Registers = Regs32 (replicate 32 0)\<rparr>)"

definition serializeThread :: "ThreadState \<Rightarrow> byte list" where
  "serializeThread t =
    (let out = [];
         out = AppendUint64 out (ThreadId t);
         out = out @ [ThreadState.ExitCode t];
         out = AppendBoolToWitness out (ThreadState.Exited t);
         out = AppendUint64 out (FutexAddr t);
         out = AppendUint64 out (FutexVal t);
         out = AppendUint64 out (FutexTimeoutStep t);
         out = AppendUint64 out (PC (Cpu t));
         out = AppendUint64 out (NextPC (Cpu t));
         out = AppendUint64 out (LO (Cpu t));
         out = AppendUint64 out (HI (Cpu t));
         out = foldl AppendUint64 out (regs (Registers t))
     in out)"

definition computeThreadRoot :: "bytes32 \<Rightarrow> ThreadState \<Rightarrow> bytes32" where
  "computeThreadRoot prevStackRoot threadToPush =
    (let hashedThread = Keccak256Hash (serializeThread threadToPush);
         hashData = [];
         hashData = hashData @ bytes prevStackRoot;
         hashData = hashData @ bytes hashedThread
     in Keccak256Hash hashData)"

section \<open>The multithreaded VM state\<close>

definition STATE_WITNESS_SIZE :: nat where
  "STATE_WITNESS_SIZE = 179"

definition MEMROOT_WITNESS_OFFSET :: nat where
  "MEMROOT_WITNESS_OFFSET = 0"

definition PREIMAGE_KEY_WITNESS_OFFSET :: nat where
  "PREIMAGE_KEY_WITNESS_OFFSET = MEMROOT_WITNESS_OFFSET + 32"

definition PREIMAGE_OFFSET_WITNESS_OFFSET :: nat where
  "PREIMAGE_OFFSET_WITNESS_OFFSET = PREIMAGE_KEY_WITNESS_OFFSET + 32"

definition HEAP_WITNESS_OFFSET :: nat where
  "HEAP_WITNESS_OFFSET = PREIMAGE_OFFSET_WITNESS_OFFSET + 8"

definition EXITCODE_WITNESS_OFFSET :: nat where
  "EXITCODE_WITNESS_OFFSET = HEAP_WITNESS_OFFSET + 8"

definition EXITED_WITNESS_OFFSET :: nat where
  "EXITED_WITNESS_OFFSET = EXITCODE_WITNESS_OFFSET + 1"

definition STEP_WITNESS_OFFSET :: nat where
  "STEP_WITNESS_OFFSET = EXITED_WITNESS_OFFSET + 1"

definition STEPS_SINCE_CONTEXT_SWITCH_WITNESS_OFFSET :: nat where
  "STEPS_SINCE_CONTEXT_SWITCH_WITNESS_OFFSET = STEP_WITNESS_OFFSET + 8"

definition WAKEUP_WITNESS_OFFSET :: nat where
  "WAKEUP_WITNESS_OFFSET = STEPS_SINCE_CONTEXT_SWITCH_WITNESS_OFFSET + 8"

definition TRAVERSE_RIGHT_WITNESS_OFFSET :: nat where
  "TRAVERSE_RIGHT_WITNESS_OFFSET = WAKEUP_WITNESS_OFFSET + 8"

definition LEFT_THREADS_ROOT_WITNESS_OFFSET :: nat where
  "LEFT_THREADS_ROOT_WITNESS_OFFSET = TRAVERSE_RIGHT_WITNESS_OFFSET + 1"

definition RIGHT_THREADS_ROOT_WITNESS_OFFSET :: nat where
  "RIGHT_THREADS_ROOT_WITNESS_OFFSET = LEFT_THREADS_ROOT_WITNESS_OFFSET + 32"

definition THREAD_ID_WITNESS_OFFSET :: nat where
  "THREAD_ID_WITNESS_OFFSET = RIGHT_THREADS_ROOT_WITNESS_OFFSET + 32"

text \<open>
  The state. \<^verbatim>\<open>memory.Memory\<close> is not among the sources: the memory is a value of a type
  \<open>'m\<close>, and its \<^verbatim>\<open>MerkleRoot()\<close> is a parameter \<open>merkleRoot :: 'm \<Rightarrow> bytes32\<close> of the
  operations that call it. Likewise \<^verbatim>\<open>vmstatus.VmStatus\<close> is a parameter
  \<open>vmStatus :: bool \<Rightarrow> byte \<Rightarrow> byte\<close>. The thread stacks are slices; index 0 is the bottom
  and the last element the top.
\<close>

record 'm State =
  Memory :: 'm
  PreimageKey :: bytes32
  PreimageOffset :: u64
  Heap :: u64
  ExitCode :: byte
  Exited :: bool
  Step :: u64
  StepsSinceLastContextSwitch :: u64
  Wakeup :: u64
  TraverseRight :: bool
  LeftThreadStack :: "ThreadState list"
  RightThreadStack :: "ThreadState list"
  NextThreadId :: u64
  LastHint :: "byte list"

text \<open>
  \<^verbatim>\<open>CreateEmptyState\<close>; \<open>newMemory\<close> stands for \<^verbatim>\<open>memory.NewMemory()\<close>. The fields the
  source leaves out have Go's zero values.
\<close>

definition CreateEmptyState :: "'m \<Rightarrow> 'm State" where
  "CreateEmptyState newMemory =
    (let initThread = CreateEmptyThread
     in \<lparr>Memory = newMemory, PreimageKey = Bytes32 (replicate 32 0), PreimageOffset = 0,
         Heap = 0, ExitCode = 0, Exited = False, Step = 0, StepsSinceLastContextSwitch = 0,
         Wakeup = FutexEmptyAddr, TraverseRight = False, LeftThreadStack = [initThread],
         RightThreadStack = [], NextThreadId = ThreadId initThread + 1, LastHint = []\<rparr>)"

definition getActiveThreadStack :: "'m State \<Rightarrow> ThreadState list" where
  "getActiveThreadStack s = (if TraverseRight s then RightThreadStack s else LeftThreadStack s)"

definition getCurrentThread :: "'m State \<Rightarrow> ThreadState result" where
  "getCurrentThread s =
    (let activeStack = getActiveThreadStack s;
         activeStackSize = length activeStack
     in if activeStackSize = 0 then Panic ActiveThreadStackEmpty
        else Val (activeStack ! (activeStackSize - 1)))"

fun calculateThreadStackRoot_loop :: "bytes32 \<Rightarrow> ThreadState list \<Rightarrow> bytes32" where
  "calculateThreadStackRoot_loop curRoot [] = curRoot"
| "calculateThreadStackRoot_loop curRoot (thread # stack) =
     calculateThreadStackRoot_loop (computeThreadRoot curRoot thread) stack"

definition calculateThreadStackRoot :: "ThreadState list \<Rightarrow> bytes32" where
  "calculateThreadStackRoot stack = calculateThreadStackRoot_loop EmptyThreadsRoot stack"

definition getRightThreadStackRoot :: "'m State \<Rightarrow> bytes32" where
  "getRightThreadStackRoot s = calculateThreadStackRoot (RightThreadStack s)"

definition getLeftThreadStackRoot :: "'m State \<Rightarrow> bytes32" where
  "getLeftThreadStackRoot s = calculateThreadStackRoot (LeftThreadStack s)"

definition GetPC :: "'m State \<Rightarrow> u64 result" where
  "GetPC s =
    (case getCurrentThread s of
       Val activeThread \<Rightarrow> Val (PC (Cpu activeThread))
     | Err e \<Rightarrow> Err e
     | Panic p \<Rightarrow> Panic p)"

definition GetRegisters :: "'m State \<Rightarrow> regs32 result" where
  "GetRegisters s =
    (case getCurrentThread s of
       Val activeThread \<Rightarrow> Val (Registers activeThread)
     | Err e \<Rightarrow> Err e
     | Panic p \<Rightarrow> Panic p)"

definition VMStatus :: "(bool \<Rightarrow> byte \<Rightarrow> byte) \<Rightarrow> 'm State \<Rightarrow> byte" where
  "VMStatus vmStatus s = vmStatus (State.Exited s) (State.ExitCode s)"

definition stateHashFromWitness :: "(bool \<Rightarrow> byte \<Rightarrow> byte) \<Rightarrow> byte list \<Rightarrow> bytes32 result" where
  "stateHashFromWitness vmStatus sw =
    (if length sw \<noteq> STATE_WITNESS_SIZE then Panic InvalidWitnessLengthPanic
     else let hash = Keccak256Hash sw;
              exitCode = sw ! EXITCODE_WITNESS_OFFSET;
              exited = sw ! EXITED_WITNESS_OFFSET;
              status = vmStatus (exited = 1) exitCode
          in Val (Bytes32 ((bytes hash)[0 := status])))"

definition EncodeWitness ::
  "(bool \<Rightarrow> byte \<Rightarrow> byte) \<Rightarrow> ('m \<Rightarrow> bytes32) \<Rightarrow> 'm State \<Rightarrow> (byte list \<times> bytes32) result" where
  "EncodeWitness vmStatus merkleRoot s =
    (let out = [];
         memRoot = merkleRoot (Memory s);
         out = out @ bytes memRoot;
         out = out @ bytes (PreimageKey s);
         out = AppendUint64 out (PreimageOffset s);
         out = AppendUint64 out (Heap s);
         out = out @ [State.ExitCode s];
         out = AppendBoolToWitness out (State.Exited s);
         out = AppendUint64 out (Step s);
         out = AppendUint64 out (StepsSinceLastContextSwitch s);
         out = AppendUint64 out (Wakeup s);
         leftStackRoot = getLeftThreadStackRoot s;
         rightStackRoot = getRightThreadStackRoot s;
         out = AppendBoolToWitness out (TraverseRight s);
         out = out @ bytes leftStackRoot;
         out = out @ bytes rightStackRoot;
         out = AppendUint64 out (NextThreadId s)
     in case stateHashFromWitness vmStatus out of
          Val h \<Rightarrow> Val (out, h)
        | Err e \<Rightarrow> Err e
        | Panic p \<Rightarrow> Panic p)"

definition EncodeThreadProof :: "'m State \<Rightarrow> byte list result" where
  "EncodeThreadProof s =
    (let activeStack = getActiveThreadStack s;
         threadCount = length activeStack
     in if threadCount = 0 then Panic InvalidEmptyThreadStack
        else let activeThread = activeStack ! (threadCount - 1);
                 otherThreads = take (threadCount - 1) activeStack;
                 threadBytes = serializeThread activeThread;
                 otherThreadsWitness = calculateThreadStackRoot otherThreads;
                 out = [];
                 out = out @ threadBytes;
                 out = out @ bytes otherThreadsWitness
             in Val out)"

definition threadCount :: "'m State \<Rightarrow> nat" where
  "threadCount s = length (LeftThreadStack s) + length (RightThreadStack s)"

text \<open>\<^verbatim>\<open>StateWitness.StateHash\<close>: the checked entry point, an error instead of the panic.\<close>

definition StateHash :: "(bool \<Rightarrow> byte \<Rightarrow> byte) \<Rightarrow> byte list \<Rightarrow> bytes32 result" where
  "StateHash vmStatus sw =
    (if length sw \<noteq> STATE_WITNESS_SIZE
     then Err (InvalidWitnessLength (length sw) STATE_WITNESS_SIZE)
     else stateHashFromWitness vmStatus sw)"

text \<open>
  The fields of the spec's witness table, one after the other: what \<^verbatim>\<open>EncodeWitness\<close> is
  compared with.
\<close>

definition witnessBytes :: "('m \<Rightarrow> bytes32) \<Rightarrow> 'm State \<Rightarrow> byte list" where
  "witnessBytes merkleRoot s =
     bytes (merkleRoot (Memory s)) @ bytes (PreimageKey s) @
     AppendUint64 [] (PreimageOffset s) @ AppendUint64 [] (Heap s) @
     [State.ExitCode s] @ [if State.Exited s then 1 else 0] @
     AppendUint64 [] (Step s) @ AppendUint64 [] (StepsSinceLastContextSwitch s) @
     AppendUint64 [] (Wakeup s) @ [if TraverseRight s then 1 else 0] @
     bytes (calculateThreadStackRoot (LeftThreadStack s)) @
     bytes (calculateThreadStackRoot (RightThreadStack s)) @
     AppendUint64 [] (NextThreadId s)"

section \<open>The preimage oracle reader\<close>

text \<open>
  \<^verbatim>\<open>TrackingPreimageOracleReader\<close>. The oracle \<^verbatim>\<open>po\<close> is an interface value; its
  \<^verbatim>\<open>GetPreimage\<close> is the field \<open>po\<close>, a function of the key (the spec requires the oracle
  to be a pure function of the key). A call of the oracle is an effect of \<^verbatim>\<open>ReadPreimage\<close>
  that no field records, so the model returns the keys the call asked the oracle for, in
  order, beside the updated reader and the two results.
\<close>

record TrackingPreimageOracleReader =
  po :: "bytes32 \<Rightarrow> byte list"
  totalPreimageSize :: int
  numPreimageRequests :: int
  lastPreimage :: "byte list"
  lastPreimageKey :: bytes32
  lastPreimageOffset :: u64

definition NewTrackingPreimageOracleReader :: "(bytes32 \<Rightarrow> byte list) \<Rightarrow> TrackingPreimageOracleReader" where
  "NewTrackingPreimageOracleReader oracle =
    \<lparr>po = oracle, totalPreimageSize = 0, numPreimageRequests = 0, lastPreimage = [],
     lastPreimageKey = Bytes32 (replicate 32 0), lastPreimageOffset = 0\<rparr>"

definition Reset :: "TrackingPreimageOracleReader \<Rightarrow> TrackingPreimageOracleReader" where
  "Reset p = p\<lparr>lastPreimageOffset := NOT 0\<rparr>"

definition GetPreimage :: "TrackingPreimageOracleReader \<Rightarrow> bytes32 \<Rightarrow> TrackingPreimageOracleReader \<times> byte list" where
  "GetPreimage p k =
    (let p = p\<lparr>numPreimageRequests := numPreimageRequests p + 1\<rparr>;
         preimage = po p k;
         p = p\<lparr>totalPreimageSize := totalPreimageSize p + int (length preimage)\<rparr>
     in (p, preimage))"

text \<open>
  Go's \<^verbatim>\<open>copy(dat[:], src)\<close> into a fresh (zero) \<^verbatim>\<open>[32]byte\<close>: the array afterwards, and the
  number of bytes copied.
\<close>

definition copy32 :: "byte list \<Rightarrow> bytes32 \<times> nat" where
  "copy32 src = (Bytes32 (take 32 src @ replicate (32 - length src) 0), min 32 (length src))"

definition ReadPreimage ::
  "TrackingPreimageOracleReader \<Rightarrow> bytes32 \<Rightarrow> u64 \<Rightarrow>
     (TrackingPreimageOracleReader \<times> bytes32 \<times> u64 \<times> bytes32 list) result" where
  "ReadPreimage p key offset =
    (let preimage = lastPreimage p;
         (p, preimage, asked) =
           (if key \<noteq> lastPreimageKey p then
              let p = p\<lparr>lastPreimageKey := key\<rparr>;
                  data = po p key;
                  preimage = [];
                  preimage = AppendUint64 preimage (of_nat (length data));
                  preimage = preimage @ data;
                  p = p\<lparr>lastPreimage := preimage\<rparr>
              in (p, preimage, [key])
            else (p, preimage, []));
         p = p\<lparr>lastPreimageOffset := offset\<rparr>
     in if length preimage < unat offset then Panic SliceBoundsOutOfRange
        else let (dat, n) = copy32 (drop (unat offset) preimage)
             in Val (p, dat, of_nat n, asked))"

definition LastPreimage :: "TrackingPreimageOracleReader \<Rightarrow> bytes32 \<times> byte list \<times> u64" where
  "LastPreimage p = (lastPreimageKey p, lastPreimage p, lastPreimageOffset p)"

text \<open>
  The length-prefixed stream of the spec: the 8-byte big-endian length of the data, then the
  data.
\<close>

definition prefixedStream :: "byte list \<Rightarrow> byte list" where
  "prefixedStream data = AppendUint64 [] (of_nat (length data)) @ data"

section \<open>Loading an ELF file\<close>

text \<open>
  \<^verbatim>\<open>elf.File\<close> and \<^verbatim>\<open>elf.Prog\<close> of Go's \<^verbatim>\<open>debug/elf\<close>, with the fields \<^verbatim>\<open>LoadELF\<close> reads.
  A \<^verbatim>\<open>Prog\<close> is also an \<^verbatim>\<open>io.ReaderAt\<close>: \<open>Contents\<close> is the sequence of bytes it delivers,
  from its offset 0 to its end.
\<close>

record Prog =
  Type :: u32
  Vaddr :: u64
  Filesz :: u64
  Memsz :: u64
  Contents :: "byte list"

record File =
  Entry :: u64
  Progs :: "Prog list"

definition HEAP_START :: u64 where
  "HEAP_START = 0x1000000000000000"

definition PT_LOAD :: u32 where
  "PT_LOAD = 1"

text \<open>
  The bytes \<^verbatim>\<open>io.NewSectionReader(prog, 0, int64(prog.Filesz))\<close> yields. With a length
  \<open>n \<ge> 0\<close> the reader stops after \<open>n\<close> bytes. A \<^verbatim>\<open>Filesz\<close> of \<open>2^63\<close> or more converts to a
  negative \<open>n\<close>: \<^verbatim>\<open>NewSectionReader\<close> then takes its limit to be the largest \<^verbatim>\<open>int64\<close>, and the
  reader runs to the end of \<open>Contents\<close>.
\<close>

definition sectionReader :: "Prog \<Rightarrow> byte list" where
  "sectionReader prog =
    (if unat (Filesz prog) < 2 ^ 63 then take (unat (Filesz prog)) (Contents prog)
     else Contents prog)"

text \<open>
  Lines 572 to 583: the reader of a segment that is not skipped. \<^verbatim>\<open>make([]byte, n)\<close> panics
  (\<^verbatim>\<open>makeslice: len out of range\<close>) when \<open>n\<close> does not fit \<^verbatim>\<open>int\<close> or exceeds the allocator
  limit of the Go runtime. That limit depends on the platform (\<open>2^48\<close> on 64-bit Linux): it is
  the parameter \<open>maxAlloc\<close>. Within the limit the allocation is taken to succeed.
\<close>

definition segmentReader :: "nat \<Rightarrow> nat \<Rightarrow> Prog \<Rightarrow> byte list result" where
  "segmentReader maxAlloc i prog =
    (let r = sectionReader prog
     in if Filesz prog \<noteq> Memsz prog then
          if Type prog = PT_LOAD then
            if Filesz prog < Memsz prog then
              if unat (Memsz prog - Filesz prog) < 2 ^ 63 \<and>
                 unat (Memsz prog - Filesz prog) \<le> maxAlloc
              then Val (r @ replicate (unat (Memsz prog - Filesz prog)) 0)
              else Panic MakeSliceLenOutOfRange
            else Err (InvalidPTLoadFileSize i (Filesz prog) (Memsz prog))
          else Err (DifferentFileSize i (Filesz prog) (Memsz prog))
        else Val r)"

text \<open>
  The loop of \<^verbatim>\<open>LoadELF\<close> from segment \<open>i\<close> on. \<^verbatim>\<open>s.GetMemory().SetMemoryRange(addr, r)\<close>
  belongs to the memory package, which is not among the sources: it is the parameter
  \<open>setMemoryRange\<close>, which writes the bytes of the reader into the state's memory at \<open>addr\<close>
  or fails (\<open>None\<close>).
\<close>

fun LoadELF_loop ::
  "nat \<Rightarrow> (u64 \<Rightarrow> byte list \<Rightarrow> 's \<Rightarrow> 's option) \<Rightarrow> nat \<Rightarrow> Prog list \<Rightarrow> 's \<Rightarrow> 's result" where
  "LoadELF_loop maxAlloc setMemoryRange i [] s = Val s"
| "LoadELF_loop maxAlloc setMemoryRange i (prog # progs) s =
    (if Type prog = 0x70000003 then LoadELF_loop maxAlloc setMemoryRange (i + 1) progs s
     else case segmentReader maxAlloc i prog of
            Err e \<Rightarrow> Err e
          | Panic c \<Rightarrow> Panic c
          | Val r \<Rightarrow>
              if HEAP_START \<le> Vaddr prog + Memsz prog
              then Err (OverlapsWithHeap i (Vaddr prog) (Vaddr prog + Memsz prog) (Memsz prog))
              else case setMemoryRange (Vaddr prog) r s of
                     None \<Rightarrow> Err (FailedToReadSegment i)
                   | Some s' \<Rightarrow> LoadELF_loop maxAlloc setMemoryRange (i + 1) progs s')"

definition LoadELF ::
  "nat \<Rightarrow> (u64 \<Rightarrow> byte list \<Rightarrow> 's \<Rightarrow> 's option) \<Rightarrow> (u64 \<Rightarrow> u64 \<Rightarrow> 's) \<Rightarrow> File \<Rightarrow> 's result" where
  "LoadELF maxAlloc setMemoryRange initState f =
    (let s = initState (Entry f) HEAP_START
     in LoadELF_loop maxAlloc setMemoryRange 0 (Progs f) s)"

text \<open>
  What the checks of \<^verbatim>\<open>LoadELF\<close> decide for one segment, on the numbers themselves (no
  wrap-around): the file size is invalid; the end address \<open>Vaddr + Memsz\<close> reaches
  \<^verbatim>\<open>HEAP_START\<close>. \<open>segmentBytes\<close> is what a valid segment loads: its bytes in the file, then
  \<open>Memsz - Filesz\<close> zero bytes. \<open>endFits\<close> says that the end address fits 64 bits and the
  padding can be allocated.
\<close>

definition skipped :: "Prog \<Rightarrow> bool" where
  "skipped prog = (Type prog = 0x70000003)"

definition invalidFileSize :: "Prog \<Rightarrow> bool" where
  "invalidFileSize prog =
    (if Type prog = PT_LOAD then unat (Memsz prog) < unat (Filesz prog)
     else unat (Filesz prog) \<noteq> unat (Memsz prog))"

definition reachesHeap :: "Prog \<Rightarrow> bool" where
  "reachesHeap prog = (unat HEAP_START \<le> unat (Vaddr prog) + unat (Memsz prog))"

definition segmentBytes :: "Prog \<Rightarrow> byte list" where
  "segmentBytes prog =
    take (unat (Filesz prog)) (Contents prog) @
    replicate (unat (Memsz prog) - unat (Filesz prog)) 0"

definition endFits :: "nat \<Rightarrow> Prog \<Rightarrow> bool" where
  "endFits maxAlloc prog =
    (unat (Vaddr prog) + unat (Memsz prog) < 2 ^ 64 \<and>
     unat (Memsz prog) - unat (Filesz prog) < 2 ^ 63 \<and>
     unat (Memsz prog) - unat (Filesz prog) \<le> maxAlloc)"

text \<open>
  A memory for concrete runs: the state is the entry point, the heap start and the writes
  made so far, in order.
\<close>

definition logInit :: "u64 \<Rightarrow> u64 \<Rightarrow> u64 \<times> u64 \<times> (u64 \<times> byte list) list" where
  "logInit pc heapStart = (pc, heapStart, [])"

definition logWrite ::
  "u64 \<Rightarrow> byte list \<Rightarrow> u64 \<times> u64 \<times> (u64 \<times> byte list) list \<Rightarrow>
     (u64 \<times> u64 \<times> (u64 \<times> byte list) list) option" where
  "logWrite addr r s = Some (fst s, fst (snd s), snd (snd s) @ [(addr, r)])"

text \<open>A file of three segments, the first of type \<^verbatim>\<open>MIPS_ABIFLAGS\<close>, for concrete runs.\<close>

definition exampleFile :: File where
  "exampleFile =
    \<lparr>Entry = 0x400000,
     Progs =
      [\<lparr>Type = 0x70000003, Vaddr = 0x1000000000000000, Filesz = 5, Memsz = 1, Contents = [7]\<rparr>,
       \<lparr>Type = 1, Vaddr = 0x10000, Filesz = 2, Memsz = 4, Contents = [1, 2, 3]\<rparr>,
       \<lparr>Type = 4, Vaddr = 0x20000, Filesz = 1, Memsz = 1, Contents = [9]\<rparr>]\<rparr>"

section \<open>Lengths and encodings\<close>

lemma length_bytes [simp]: "length (bytes h) = 32"
  using bytes [of h] by simp

lemma length_regs [simp]: "length (regs r) = 32"
  using regs [of r] by simp

lemma length_lane_bytes [simp]: "length (lane_bytes w) = 8"
  by (simp add: lane_bytes_def)

lemma length_keccak256 [simp]: "length (keccak256 m) = 32"
  by (simp add: keccak256_def Let_def length_concat o_def sum_list_triv)

lemma bytes_Keccak256Hash: "bytes (Keccak256Hash m) = keccak256 m"
  by (simp add: Keccak256Hash_def Bytes32_inverse)

lemma length_AppendUint64 [simp]: "length (AppendUint64 b v) = length b + 8"
  by (simp add: AppendUint64_def)

lemma AppendUint64_append: "AppendUint64 b v = b @ AppendUint64 [] v"
  by (simp add: AppendUint64_def)

lemma foldl_AppendUint64:
  "foldl AppendUint64 out rs = out @ concat (map (AppendUint64 []) rs)"
proof (induction rs arbitrary: out)
  case Nil
  show ?case by simp
next
  case (Cons r rs)
  have "foldl AppendUint64 (AppendUint64 out r) rs =
      AppendUint64 out r @ concat (map (AppendUint64 []) rs)"
    by (rule Cons.IH)
  then show ?case
    by (simp add: AppendUint64_append [of out r])
qed

lemma length_concat_AppendUint64 [simp]:
  "length (concat (map (AppendUint64 []) rs)) = 8 * length rs"
  by (induction rs) simp_all

lemma nth_chunk_concat:
  "i < length rs \<Longrightarrow>
   take 8 (drop (8 * i) (concat (map (AppendUint64 []) rs))) = AppendUint64 [] (rs ! i)"
proof (induction rs arbitrary: i)
  case Nil
  then show ?case by simp
next
  case (Cons r rs)
  show ?case
  proof (cases i)
    case 0
    then show ?thesis by simp
  next
    case (Suc j)
    with Cons.prems have "j < length rs" by simp
    from Cons.IH [OF this] Suc show ?thesis by simp
  qed
qed

lemma byte_part0: "(ucast (ucast v :: byte) :: u64) = v AND mask 8"
  by (rule bit_word_eqI) (auto simp: bit_simps)

lemma byte_part1: "push_bit k (drop_bit k v AND mask 8) = (v :: u64) AND push_bit k (mask 8)"
  by (rule bit_word_eqI) (auto simp: bit_simps)

lemma byte_masks:
  "(mask 8 :: u64) OR push_bit 8 (mask 8) OR push_bit 16 (mask 8) OR push_bit 24 (mask 8) OR
   push_bit 32 (mask 8) OR push_bit 40 (mask 8) OR push_bit 48 (mask 8) OR push_bit 56 (mask 8) = - 1"
  by (simp add: mask_eq_exp_minus_1)

lemma Uint64_AppendUint64 [simp]: "Uint64 (AppendUint64 [] v) = v"
proof -
  have "Uint64 (AppendUint64 [] v) =
      ucast (ucast v :: byte) OR push_bit 8 (ucast (ucast (drop_bit 8 v) :: byte)) OR
      push_bit 16 (ucast (ucast (drop_bit 16 v) :: byte)) OR
      push_bit 24 (ucast (ucast (drop_bit 24 v) :: byte)) OR
      push_bit 32 (ucast (ucast (drop_bit 32 v) :: byte)) OR
      push_bit 40 (ucast (ucast (drop_bit 40 v) :: byte)) OR
      push_bit 48 (ucast (ucast (drop_bit 48 v) :: byte)) OR
      push_bit 56 (ucast (ucast (drop_bit 56 v) :: byte))"
    by (simp add: Uint64_def AppendUint64_def)
  also have "\<dots> = v AND ((mask 8 :: u64) OR push_bit 8 (mask 8) OR push_bit 16 (mask 8) OR
      push_bit 24 (mask 8) OR push_bit 32 (mask 8) OR push_bit 40 (mask 8) OR
      push_bit 48 (mask 8) OR push_bit 56 (mask 8))"
    by (simp only: byte_part0 byte_part1 bit.conj_disj_distrib)
  also have "\<dots> = v"
    by (simp only: byte_masks) simp
  finally show ?thesis .
qed

text \<open>The serialization as one concatenation, field by field.\<close>

lemma serializeThread_concat:
  "serializeThread t =
     AppendUint64 [] (ThreadId t) @ [ThreadState.ExitCode t] @
     [if ThreadState.Exited t then 1 else 0] @
     AppendUint64 [] (FutexAddr t) @ AppendUint64 [] (FutexVal t) @
     AppendUint64 [] (FutexTimeoutStep t) @
     AppendUint64 [] (PC (Cpu t)) @ AppendUint64 [] (NextPC (Cpu t)) @
     AppendUint64 [] (LO (Cpu t)) @ AppendUint64 [] (HI (Cpu t)) @
     concat (map (AppendUint64 []) (regs (Registers t)))"
  unfolding serializeThread_def Let_def AppendBoolToWitness_def foldl_AppendUint64
  by (simp add: AppendUint64_def)

lemma length_serializeThread [simp]: "length (serializeThread t) = 322"
  by (simp add: serializeThread_concat)

text \<open>
  C3. For every thread state, \<^verbatim>\<open>serializeThread\<close> yields exactly 322 bytes: the thread id
  in bytes 0 to 7, the exit code at 8, the exited flag as 0 or 1 at 9, then, 8 bytes each and
  big-endian, the futex address, value and timeout step, PC, NextPC, LO, HI, and the 32
  registers from byte 66 on.
\<close>

theorem serializeThread_layout:
  "length (serializeThread t) = SERIALIZED_THREAD_SIZE \<and>
   SERIALIZED_THREAD_SIZE = 322 \<and>
   Uint64 (take 8 (serializeThread t)) = ThreadId t \<and>
   serializeThread t ! 8 = ThreadState.ExitCode t \<and>
   serializeThread t ! 9 = (if ThreadState.Exited t then 1 else 0) \<and>
   Uint64 (take 8 (drop 10 (serializeThread t))) = FutexAddr t \<and>
   Uint64 (take 8 (drop 18 (serializeThread t))) = FutexVal t \<and>
   Uint64 (take 8 (drop 26 (serializeThread t))) = FutexTimeoutStep t \<and>
   Uint64 (take 8 (drop 34 (serializeThread t))) = PC (Cpu t) \<and>
   Uint64 (take 8 (drop 42 (serializeThread t))) = NextPC (Cpu t) \<and>
   Uint64 (take 8 (drop 50 (serializeThread t))) = LO (Cpu t) \<and>
   Uint64 (take 8 (drop 58 (serializeThread t))) = HI (Cpu t) \<and>
   map (\<lambda>i. Uint64 (take 8 (drop (66 + 8 * i) (serializeThread t)))) [0..<32] =
     regs (Registers t)"
proof -
  let ?w = "serializeThread t"
  have len: "length ?w = SERIALIZED_THREAD_SIZE" "SERIALIZED_THREAD_SIZE = 322"
    by (simp_all add: SERIALIZED_THREAD_SIZE_def)
  have f0: "Uint64 (take 8 ?w) = ThreadId t"
    by (simp add: serializeThread_concat)
  have f8: "?w ! 8 = ThreadState.ExitCode t"
    by (simp add: serializeThread_concat nth_append)
  have f9: "?w ! 9 = (if ThreadState.Exited t then 1 else 0)"
    by (simp add: serializeThread_concat nth_append)
  have f10: "Uint64 (take 8 (drop 10 ?w)) = FutexAddr t"
    by (simp add: serializeThread_concat)
  have f18: "Uint64 (take 8 (drop 18 ?w)) = FutexVal t"
    by (simp add: serializeThread_concat)
  have f26: "Uint64 (take 8 (drop 26 ?w)) = FutexTimeoutStep t"
    by (simp add: serializeThread_concat)
  have f34: "Uint64 (take 8 (drop 34 ?w)) = PC (Cpu t)"
    by (simp add: serializeThread_concat)
  have f42: "Uint64 (take 8 (drop 42 ?w)) = NextPC (Cpu t)"
    by (simp add: serializeThread_concat)
  have f50: "Uint64 (take 8 (drop 50 ?w)) = LO (Cpu t)"
    by (simp add: serializeThread_concat)
  have f58: "Uint64 (take 8 (drop 58 ?w)) = HI (Cpu t)"
    by (simp add: serializeThread_concat)
  have r: "Uint64 (take 8 (drop (66 + 8 * i) ?w)) = regs (Registers t) ! i" if "i < 32" for i
  proof -
    define p where "p = AppendUint64 [] (ThreadId t) @ [ThreadState.ExitCode t] @
      [if ThreadState.Exited t then 1 else 0] @
      AppendUint64 [] (FutexAddr t) @ AppendUint64 [] (FutexVal t) @
      AppendUint64 [] (FutexTimeoutStep t) @
      AppendUint64 [] (PC (Cpu t)) @ AppendUint64 [] (NextPC (Cpu t)) @
      AppendUint64 [] (LO (Cpu t)) @ AppendUint64 [] (HI (Cpu t))"
    have w: "?w = p @ concat (map (AppendUint64 []) (regs (Registers t)))"
      by (simp add: serializeThread_concat p_def)
    have "length p = 66"
      by (simp add: p_def)
    then have "drop (66 + 8 * i) ?w = drop (8 * i) (concat (map (AppendUint64 []) (regs (Registers t))))"
      by (simp add: w)
    with that show ?thesis
      by (simp add: nth_chunk_concat)
  qed
  have regs: "map (\<lambda>i. Uint64 (take 8 (drop (66 + 8 * i) ?w))) [0..<32] = regs (Registers t)"
    by (rule nth_equalityI) (simp_all add: r)
  from len f0 f8 f9 f10 f18 f26 f34 f42 f50 f58 regs show ?thesis
    by blast
qed

section \<open>The state witness\<close>

lemma bytes_Bytes32: "length bs = 32 \<Longrightarrow> bytes (Bytes32 bs) = bs"
  by (simp add: Bytes32_inverse)

lemma calculateThreadStackRoot_loop_foldl:
  "calculateThreadStackRoot_loop curRoot stack = foldl computeThreadRoot curRoot stack"
  by (induction stack arbitrary: curRoot) simp_all

lemma length_witnessBytes [simp]: "length (witnessBytes merkleRoot s) = 179"
  by (simp add: witnessBytes_def)

lemma witnessBytes_80: "witnessBytes merkleRoot s ! 80 = State.ExitCode s"
  by (simp add: witnessBytes_def nth_append)

lemma witnessBytes_81: "witnessBytes merkleRoot s ! 81 = (if State.Exited s then 1 else 0)"
  by (simp add: witnessBytes_def nth_append)

lemma stateHashFromWitness_179:
  "length sw = 179 \<Longrightarrow>
   stateHashFromWitness vmStatus sw =
     Val (Bytes32 ((bytes (Keccak256Hash sw))[0 := vmStatus (sw ! 81 = 1) (sw ! 80)]))"
  by (simp add: stateHashFromWitness_def STATE_WITNESS_SIZE_def EXITED_WITNESS_OFFSET_def
      EXITCODE_WITNESS_OFFSET_def HEAP_WITNESS_OFFSET_def PREIMAGE_OFFSET_WITNESS_OFFSET_def
      PREIMAGE_KEY_WITNESS_OFFSET_def MEMROOT_WITNESS_OFFSET_def Let_def)

lemma EncodeWitness_eq:
  "EncodeWitness vmStatus merkleRoot s =
     (case stateHashFromWitness vmStatus (witnessBytes merkleRoot s) of
        Val h \<Rightarrow> Val (witnessBytes merkleRoot s, h) | Err e \<Rightarrow> Err e | Panic c \<Rightarrow> Panic c)"
proof -
  have "AppendUint64 (bytes (calculateThreadStackRoot (RightThreadStack s))) (NextThreadId s) =
      bytes (calculateThreadStackRoot (RightThreadStack s)) @ AppendUint64 [] (NextThreadId s)"
    by (rule AppendUint64_append)
  then have out: "AppendUint64
       ((AppendBoolToWitness
          (AppendUint64 (AppendUint64 (AppendUint64
             (AppendBoolToWitness
                (AppendUint64 (AppendUint64
                   (([] @ bytes (merkleRoot (Memory s))) @ bytes (PreimageKey s))
                   (PreimageOffset s)) (Heap s) @ [State.ExitCode s])
                (State.Exited s))
             (Step s)) (StepsSinceLastContextSwitch s)) (Wakeup s))
          (TraverseRight s) @
        bytes (getLeftThreadStackRoot s)) @ bytes (getRightThreadStackRoot s))
       (NextThreadId s) = witnessBytes merkleRoot s"
    unfolding witnessBytes_def AppendBoolToWitness_def getLeftThreadStackRoot_def
      getRightThreadStackRoot_def
    by (simp add: AppendUint64_def)
  show ?thesis
    unfolding EncodeWitness_def Let_def
    by (simp only: out)
qed

lemma EncodeWitness_Val:
  "EncodeWitness vmStatus merkleRoot s =
     Val (witnessBytes merkleRoot s,
          Bytes32 ((bytes (Keccak256Hash (witnessBytes merkleRoot s)))
                     [0 := vmStatus (State.Exited s) (State.ExitCode s)]))"
  by (simp add: EncodeWitness_eq stateHashFromWitness_179 witnessBytes_80 witnessBytes_81)

text \<open>
  C1. For every state, \<^verbatim>\<open>EncodeWitness\<close> returns a pair \<open>(w, h)\<close>: \<open>h\<close> is the Keccak-256
  hash of \<open>w\<close> with byte 0 replaced by the VM status of \<open>(Exited, ExitCode)\<close>, so byte 0 of
  \<open>h\<close> is \<^verbatim>\<open>VMStatus\<close> of the state, and \<^verbatim>\<open>stateHashFromWitness\<close> of \<open>w\<close> is \<open>h\<close>.
\<close>

theorem EncodeWitness_state_hash:
  "\<exists>w h. EncodeWitness vmStatus merkleRoot s = Val (w, h) \<and>
     bytes h = (bytes (Keccak256Hash w))[0 := vmStatus (State.Exited s) (State.ExitCode s)] \<and>
     bytes h ! 0 = VMStatus vmStatus s \<and>
     stateHashFromWitness vmStatus w = Val h"
proof -
  let ?w = "witnessBytes merkleRoot s"
  let ?h = "Bytes32 ((bytes (Keccak256Hash ?w))[0 := vmStatus (State.Exited s) (State.ExitCode s)])"
  have e: "EncodeWitness vmStatus merkleRoot s = Val (?w, ?h)"
    by (rule EncodeWitness_Val)
  have b: "bytes ?h = (bytes (Keccak256Hash ?w))[0 := vmStatus (State.Exited s) (State.ExitCode s)]"
    by (simp add: bytes_Bytes32)
  have z: "bytes ?h ! 0 = VMStatus vmStatus s"
    by (simp add: b VMStatus_def)
  have r: "stateHashFromWitness vmStatus ?w = Val ?h"
    by (simp add: stateHashFromWitness_179 witnessBytes_80 witnessBytes_81)
  from e b z r show ?thesis
    by blast
qed

text \<open>
  C2. For every state, the witness of \<^verbatim>\<open>EncodeWitness\<close> has exactly 179 bytes, laid out
  big-endian: memory root at 0, preimage key at 32, preimage offset at 64, heap at 72, exit
  code at 80, exited (0 or 1) at 81, step at 82, steps since the last context switch at 90,
  wakeup at 98, traverse right (0 or 1) at 106, the roots of the left and right thread stacks
  at 107 and 139, and the next thread id at 171.
\<close>

theorem EncodeWitness_layout:
  "\<exists>w h. EncodeWitness vmStatus merkleRoot s = Val (w, h) \<and>
     length w = STATE_WITNESS_SIZE \<and> STATE_WITNESS_SIZE = 179 \<and>
     [MEMROOT_WITNESS_OFFSET, PREIMAGE_KEY_WITNESS_OFFSET, PREIMAGE_OFFSET_WITNESS_OFFSET,
      HEAP_WITNESS_OFFSET, EXITCODE_WITNESS_OFFSET, EXITED_WITNESS_OFFSET, STEP_WITNESS_OFFSET,
      STEPS_SINCE_CONTEXT_SWITCH_WITNESS_OFFSET, WAKEUP_WITNESS_OFFSET,
      TRAVERSE_RIGHT_WITNESS_OFFSET, LEFT_THREADS_ROOT_WITNESS_OFFSET,
      RIGHT_THREADS_ROOT_WITNESS_OFFSET, THREAD_ID_WITNESS_OFFSET] =
       [0, 32, 64, 72, 80, 81, 82, 90, 98, 106, 107, 139, 171] \<and>
     take 32 w = bytes (merkleRoot (Memory s)) \<and>
     take 32 (drop 32 w) = bytes (PreimageKey s) \<and>
     Uint64 (take 8 (drop 64 w)) = PreimageOffset s \<and>
     Uint64 (take 8 (drop 72 w)) = Heap s \<and>
     w ! 80 = State.ExitCode s \<and>
     w ! 81 = (if State.Exited s then 1 else 0) \<and>
     Uint64 (take 8 (drop 82 w)) = Step s \<and>
     Uint64 (take 8 (drop 90 w)) = StepsSinceLastContextSwitch s \<and>
     Uint64 (take 8 (drop 98 w)) = Wakeup s \<and>
     w ! 106 = (if TraverseRight s then 1 else 0) \<and>
     take 32 (drop 107 w) = bytes (calculateThreadStackRoot (LeftThreadStack s)) \<and>
     take 32 (drop 139 w) = bytes (calculateThreadStackRoot (RightThreadStack s)) \<and>
     Uint64 (take 8 (drop 171 w)) = NextThreadId s"
proof -
  let ?w = "witnessBytes merkleRoot s"
  have e: "\<exists>h. EncodeWitness vmStatus merkleRoot s = Val (?w, h)"
    by (simp add: EncodeWitness_Val)
  have len: "length ?w = STATE_WITNESS_SIZE" "STATE_WITNESS_SIZE = 179"
    by (simp_all add: STATE_WITNESS_SIZE_def)
  have offs: "[MEMROOT_WITNESS_OFFSET, PREIMAGE_KEY_WITNESS_OFFSET, PREIMAGE_OFFSET_WITNESS_OFFSET,
      HEAP_WITNESS_OFFSET, EXITCODE_WITNESS_OFFSET, EXITED_WITNESS_OFFSET, STEP_WITNESS_OFFSET,
      STEPS_SINCE_CONTEXT_SWITCH_WITNESS_OFFSET, WAKEUP_WITNESS_OFFSET,
      TRAVERSE_RIGHT_WITNESS_OFFSET, LEFT_THREADS_ROOT_WITNESS_OFFSET,
      RIGHT_THREADS_ROOT_WITNESS_OFFSET, THREAD_ID_WITNESS_OFFSET] =
       [0, 32, 64, 72, 80, 81, 82, 90, 98, 106, 107, 139, 171]"
    by (simp add: MEMROOT_WITNESS_OFFSET_def PREIMAGE_KEY_WITNESS_OFFSET_def
        PREIMAGE_OFFSET_WITNESS_OFFSET_def HEAP_WITNESS_OFFSET_def EXITCODE_WITNESS_OFFSET_def
        EXITED_WITNESS_OFFSET_def STEP_WITNESS_OFFSET_def
        STEPS_SINCE_CONTEXT_SWITCH_WITNESS_OFFSET_def WAKEUP_WITNESS_OFFSET_def
        TRAVERSE_RIGHT_WITNESS_OFFSET_def LEFT_THREADS_ROOT_WITNESS_OFFSET_def
        RIGHT_THREADS_ROOT_WITNESS_OFFSET_def THREAD_ID_WITNESS_OFFSET_def)
  have f0: "take 32 ?w = bytes (merkleRoot (Memory s))"
    by (simp add: witnessBytes_def)
  have f32: "take 32 (drop 32 ?w) = bytes (PreimageKey s)"
    by (simp add: witnessBytes_def)
  have f64: "Uint64 (take 8 (drop 64 ?w)) = PreimageOffset s"
    by (simp add: witnessBytes_def)
  have f72: "Uint64 (take 8 (drop 72 ?w)) = Heap s"
    by (simp add: witnessBytes_def)
  have f80: "?w ! 80 = State.ExitCode s"
    by (rule witnessBytes_80)
  have f81: "?w ! 81 = (if State.Exited s then 1 else 0)"
    by (rule witnessBytes_81)
  have f82: "Uint64 (take 8 (drop 82 ?w)) = Step s"
    by (simp add: witnessBytes_def)
  have f90: "Uint64 (take 8 (drop 90 ?w)) = StepsSinceLastContextSwitch s"
    by (simp add: witnessBytes_def)
  have f98: "Uint64 (take 8 (drop 98 ?w)) = Wakeup s"
    by (simp add: witnessBytes_def)
  have f106: "?w ! 106 = (if TraverseRight s then 1 else 0)"
    by (simp add: witnessBytes_def nth_append)
  have f107: "take 32 (drop 107 ?w) = bytes (calculateThreadStackRoot (LeftThreadStack s))"
    by (simp add: witnessBytes_def)
  have f139: "take 32 (drop 139 ?w) = bytes (calculateThreadStackRoot (RightThreadStack s))"
    by (simp add: witnessBytes_def)
  have f171: "Uint64 (take 8 (drop 171 ?w)) = NextThreadId s"
    by (simp add: witnessBytes_def)
  from e len offs f0 f32 f64 f72 f80 f81 f82 f90 f98 f106 f107 f139 f171 show ?thesis
    by blast
qed

section \<open>Keccak-256 of 64 zero bytes\<close>

text \<open>
  The three steps of a round on a state written out, and then the 24 rounds on the one block
  that 64 zero bytes pad to, each evaluated by rewriting.
\<close>

lemma theta_explicit:
  "theta
    [a0, a1, a2, a3, a4, a5, a6, a7, a8, a9, a10, a11, a12,
     a13, a14, a15, a16, a17, a18, a19, a20, a21, a22, a23, a24] =
    (let c0 = a0 XOR a5 XOR a10 XOR a15 XOR a20;
         c1 = a1 XOR a6 XOR a11 XOR a16 XOR a21;
         c2 = a2 XOR a7 XOR a12 XOR a17 XOR a22;
         c3 = a3 XOR a8 XOR a13 XOR a18 XOR a23;
         c4 = a4 XOR a9 XOR a14 XOR a19 XOR a24;
         d0 = c4 XOR rotl64 c1 1;
         d1 = c0 XOR rotl64 c2 1;
         d2 = c1 XOR rotl64 c3 1;
         d3 = c2 XOR rotl64 c4 1;
         d4 = c3 XOR rotl64 c0 1
     in [a0 XOR d0, a1 XOR d1, a2 XOR d2, a3 XOR d3, a4 XOR d4,
         a5 XOR d0, a6 XOR d1, a7 XOR d2, a8 XOR d3, a9 XOR d4,
         a10 XOR d0, a11 XOR d1, a12 XOR d2, a13 XOR d3, a14 XOR d4,
         a15 XOR d0, a16 XOR d1, a17 XOR d2, a18 XOR d3, a19 XOR d4,
         a20 XOR d0, a21 XOR d1, a22 XOR d2, a23 XOR d3, a24 XOR d4])"
  by (simp add: theta_def Let_def upt_rec)

lemma rho_pi_explicit:
  "rho_pi
    [a0, a1, a2, a3, a4, a5, a6, a7, a8, a9, a10, a11, a12,
     a13, a14, a15, a16, a17, a18, a19, a20, a21, a22, a23, a24] =
    [rotl64 a0 0, rotl64 a6 44, rotl64 a12 43, rotl64 a18 21, rotl64 a24 14,
     rotl64 a3 28, rotl64 a9 20, rotl64 a10 3, rotl64 a16 45, rotl64 a22 61,
     rotl64 a1 1, rotl64 a7 6, rotl64 a13 25, rotl64 a19 8, rotl64 a20 18,
     rotl64 a4 27, rotl64 a5 36, rotl64 a11 10, rotl64 a17 15, rotl64 a23 56,
     rotl64 a2 62, rotl64 a8 55, rotl64 a14 39, rotl64 a15 41, rotl64 a21 2]"
  by (simp add: rho_pi_def keccak_rot_def Let_def upt_rec)

lemma chi_explicit:
  "chi
    [a0, a1, a2, a3, a4, a5, a6, a7, a8, a9, a10, a11, a12,
     a13, a14, a15, a16, a17, a18, a19, a20, a21, a22, a23, a24] =
    [a0 XOR (NOT a1 AND a2), a1 XOR (NOT a2 AND a3), a2 XOR (NOT a3 AND a4),
     a3 XOR (NOT a4 AND a0), a4 XOR (NOT a0 AND a1), a5 XOR (NOT a6 AND a7),
     a6 XOR (NOT a7 AND a8), a7 XOR (NOT a8 AND a9), a8 XOR (NOT a9 AND a5),
     a9 XOR (NOT a5 AND a6), a10 XOR (NOT a11 AND a12), a11 XOR (NOT a12 AND a13),
     a12 XOR (NOT a13 AND a14), a13 XOR (NOT a14 AND a10), a14 XOR (NOT a10 AND a11),
     a15 XOR (NOT a16 AND a17), a16 XOR (NOT a17 AND a18), a17 XOR (NOT a18 AND a19),
     a18 XOR (NOT a19 AND a15), a19 XOR (NOT a15 AND a16), a20 XOR (NOT a21 AND a22),
     a21 XOR (NOT a22 AND a23), a22 XOR (NOT a23 AND a24), a23 XOR (NOT a24 AND a20),
     a24 XOR (NOT a20 AND a21)]"
  by (simp add: chi_def Let_def upt_rec)

lemma keccak_round_zero_0:
  "keccak_round
    [0x0000000000000000, 0x0000000000000000, 0x0000000000000000, 0x0000000000000000,
     0x0000000000000000, 0x0000000000000000, 0x0000000000000000, 0x0000000000000000,
     0x0000000000000001, 0x0000000000000000, 0x0000000000000000, 0x0000000000000000,
     0x0000000000000000, 0x0000000000000000, 0x0000000000000000, 0x0000000000000000,
     0x8000000000000000, 0x0000000000000000, 0x0000000000000000, 0x0000000000000000,
     0x0000000000000000, 0x0000000000000000, 0x0000000000000000, 0x0000000000000000,
     0x0000000000000000]
    0x0000000000000001 =
    [0x0000140000000000, 0x0000000000000000, 0x0000140000004000, 0x0000000000000001,
     0x0000000000004000, 0x0000000000000008, 0x0000100000100000, 0x5000000000000008,
     0x0000100000000000, 0x5000000000100000, 0x0000000000000000, 0x00000000000001A0,
     0x0000000000040000, 0x0000000000000100, 0x00000000000400A0, 0x0000000008000000,
     0x0000001000014000, 0x0000000000000000, 0x0000000008014000, 0x0000001000000000,
     0xA000008000000000, 0x0080020000000000, 0x0000008000000000, 0xA000020000000000,
     0x0080000000000000]"
  by (simp add: keccak_round_def theta_explicit rho_pi_explicit chi_explicit iota_def rotl64_def)

lemma keccak_round_zero_1:
  "keccak_round
    [0x0000140000000000, 0x0000000000000000, 0x0000140000004000, 0x0000000000000001,
     0x0000000000004000, 0x0000000000000008, 0x0000100000100000, 0x5000000000000008,
     0x0000100000000000, 0x5000000000100000, 0x0000000000000000, 0x00000000000001A0,
     0x0000000000040000, 0x0000000000000100, 0x00000000000400A0, 0x0000000008000000,
     0x0000001000014000, 0x0000000000000000, 0x0000000008014000, 0x0000001000000000,
     0xA000008000000000, 0x0080020000000000, 0x0000008000000000, 0xA000020000000000,
     0x0080000000000000]
    0x0000000000008082 =
    [0x679C2A340116C362, 0x880185B02AD62083, 0xB4DD180451F098A0, 0xC5013580292CE3C2,
     0x86C18600528C3821, 0x0C02EC949FA41E4A, 0x80038114170B0002, 0xCC11275201B66776,
     0x3801C8049AA2000B, 0xD81107D202097875, 0x4000228081130019, 0x2036841C04F1FA04,
     0xD2C059439F60C629, 0x003B6B18115110D0, 0xB2CD84DF0B632CC4, 0x00520828A504A1D8,
     0x1864368CD9D34340, 0x40A700362206EC81, 0x1B880001E6D1A158, 0x4B7D3693B8026EC1,
     0xD2A050F4041960E4, 0xC97F808150407670, 0x00A0E670203F806C, 0xBDA7C027044C8098,
     0x26587E0270221660]"
  by (simp add: keccak_round_def theta_explicit rho_pi_explicit chi_explicit iota_def rotl64_def)

lemma keccak_round_zero_2:
  "keccak_round
    [0x679C2A340116C362, 0x880185B02AD62083, 0xB4DD180451F098A0, 0xC5013580292CE3C2,
     0x86C18600528C3821, 0x0C02EC949FA41E4A, 0x80038114170B0002, 0xCC11275201B66776,
     0x3801C8049AA2000B, 0xD81107D202097875, 0x4000228081130019, 0x2036841C04F1FA04,
     0xD2C059439F60C629, 0x003B6B18115110D0, 0xB2CD84DF0B632CC4, 0x00520828A504A1D8,
     0x1864368CD9D34340, 0x40A700362206EC81, 0x1B880001E6D1A158, 0x4B7D3693B8026EC1,
     0xD2A050F4041960E4, 0xC97F808150407670, 0x00A0E670203F806C, 0xBDA7C027044C8098,
     0x26587E0270221660]
    0x800000000000808A =
    [0xD0FB5EEBCFAF8CF0, 0xB26222C602FE9939, 0xC47127EA041494FE, 0x6DCB80DA45B9767B,
     0xDF50F3523F7850E5, 0xBE1BF969A6D7E0F7, 0xAD9EF7394B7FB860, 0xDA60FAAF9F565A5C,
     0xBAA616EAE18DFD08, 0x68F4EDA62B20A44D, 0x6AA4F3C51C79ADD7, 0xD5A774C85B0F5F62,
     0xA5F18ED9C5AA04F9, 0xBAE9F1D128852BA4, 0x4504DE8ACDF8D739, 0x3F5DBA171048554B,
     0x98C7D019E40FC1F6, 0x94E54840C19C6818, 0x5FD3AB1A435327D2, 0x29D59DDBABEA5DC9,
     0xFE75A2F5583772A8, 0xEF7C398BDF38281A, 0xACE3F004135FCF5B, 0x1433047660210A27,
     0x9118EE6174030975]"
  by (simp add: keccak_round_def theta_explicit rho_pi_explicit chi_explicit iota_def rotl64_def)

lemma keccak_round_zero_3:
  "keccak_round
    [0xD0FB5EEBCFAF8CF0, 0xB26222C602FE9939, 0xC47127EA041494FE, 0x6DCB80DA45B9767B,
     0xDF50F3523F7850E5, 0xBE1BF969A6D7E0F7, 0xAD9EF7394B7FB860, 0xDA60FAAF9F565A5C,
     0xBAA616EAE18DFD08, 0x68F4EDA62B20A44D, 0x6AA4F3C51C79ADD7, 0xD5A774C85B0F5F62,
     0xA5F18ED9C5AA04F9, 0xBAE9F1D128852BA4, 0x4504DE8ACDF8D739, 0x3F5DBA171048554B,
     0x98C7D019E40FC1F6, 0x94E54840C19C6818, 0x5FD3AB1A435327D2, 0x29D59DDBABEA5DC9,
     0xFE75A2F5583772A8, 0xEF7C398BDF38281A, 0xACE3F004135FCF5B, 0x1433047660210A27,
     0x9118EE6174030975]
    0x8000000080008000 =
    [0xE55F2C611AAC7D6A, 0x31560BA3E6C2D6A5, 0xA2EAD2AD82BF3FB5, 0x294E29741A98CDD6,
     0x37E9AADD364E0DEC, 0xB41005439DBCCAE8, 0xE1AFE0EAD1EC548F, 0xD84FCE694E93AAF3,
     0x5BFE810C5A62F8A4, 0x49B6A59B0CAC2C5A, 0xE0974AA5CAE74247, 0xBAC4C0544A31F7CE,
     0x03705951E5F89B99, 0x89CF5FFE9318CC91, 0x13A4B06EB8BB8EEA, 0xAE76402D071F6514,
     0x7E9B8D59992D8CDD, 0x3EBF75F099AD8855, 0xC2AF6BD473DAD7F2, 0x758A89D8DE8002E2,
     0x0F5F0DA59CCDA2DB, 0xA1464DC47C008A3D, 0x702F3616D407E6EC, 0xAC1BA79DF5BBB491,
     0x97764A37A9704844]"
  by (simp add: keccak_round_def theta_explicit rho_pi_explicit chi_explicit iota_def rotl64_def)

lemma keccak_round_zero_4:
  "keccak_round
    [0xE55F2C611AAC7D6A, 0x31560BA3E6C2D6A5, 0xA2EAD2AD82BF3FB5, 0x294E29741A98CDD6,
     0x37E9AADD364E0DEC, 0xB41005439DBCCAE8, 0xE1AFE0EAD1EC548F, 0xD84FCE694E93AAF3,
     0x5BFE810C5A62F8A4, 0x49B6A59B0CAC2C5A, 0xE0974AA5CAE74247, 0xBAC4C0544A31F7CE,
     0x03705951E5F89B99, 0x89CF5FFE9318CC91, 0x13A4B06EB8BB8EEA, 0xAE76402D071F6514,
     0x7E9B8D59992D8CDD, 0x3EBF75F099AD8855, 0xC2AF6BD473DAD7F2, 0x758A89D8DE8002E2,
     0x0F5F0DA59CCDA2DB, 0xA1464DC47C008A3D, 0x702F3616D407E6EC, 0xAC1BA79DF5BBB491,
     0x97764A37A9704844]
    0x000000000000808B =
    [0x2511E3A7ED6BBC16, 0xDB7783FAC4353CF3, 0x248CA4E857AA7EF3, 0x859F9D6E1E7C0A9A,
     0x911DCC766DB408B5, 0x8B5B5F6401105968, 0xA9FF3659284BC9A2, 0x12871E59715249A1,
     0x0FD3223855F6199E, 0x196F35583009D489, 0x9E723095F4764886, 0x2D929DFE21074B10,
     0x1C390ECE81428166, 0xA5BC1AB239E83641, 0x9989E9488D2A9B77, 0x16FE5BD9640A056A,
     0x876991B94A42B831, 0xFD8AF543A046A509, 0x988F7ACFE32C5004, 0x8385D07C681A7E0A,
     0x2F2736EC6AE3C66C, 0x9F7C9A3B597EA72C, 0xE1080F734CCBFF4A, 0xA7CFCD9D05D5CB85,
     0xEC6DF4A69B6DC26E]"
  by (simp add: keccak_round_def theta_explicit rho_pi_explicit chi_explicit iota_def rotl64_def)

lemma keccak_round_zero_5:
  "keccak_round
    [0x2511E3A7ED6BBC16, 0xDB7783FAC4353CF3, 0x248CA4E857AA7EF3, 0x859F9D6E1E7C0A9A,
     0x911DCC766DB408B5, 0x8B5B5F6401105968, 0xA9FF3659284BC9A2, 0x12871E59715249A1,
     0x0FD3223855F6199E, 0x196F35583009D489, 0x9E723095F4764886, 0x2D929DFE21074B10,
     0x1C390ECE81428166, 0xA5BC1AB239E83641, 0x9989E9488D2A9B77, 0x16FE5BD9640A056A,
     0x876991B94A42B831, 0xFD8AF543A046A509, 0x988F7ACFE32C5004, 0x8385D07C681A7E0A,
     0x2F2736EC6AE3C66C, 0x9F7C9A3B597EA72C, 0xE1080F734CCBFF4A, 0xA7CFCD9D05D5CB85,
     0xEC6DF4A69B6DC26E]
    0x0000000080000001 =
    [0x551803A4E241A4B1, 0x3AEB44DEA1124A86, 0x82CD935418165B75, 0xEB15EB6917AA472B,
     0x8BD6A4DC2CEFF1CB, 0xB05AA91B341E93A4, 0x528CB5E77E11B09E, 0xA3D2DDB37A98ACA9,
     0x20C43C7E1D0802DD, 0x926CF5987C760439, 0x7F85F816D9A715E5, 0xCE063A6081247FDD,
     0x0BD5EE78663C1852, 0x9E4024DF490D33C6, 0x17BDD4C0FFEF34B1, 0x3EA73B5C6E0771E4,
     0x57C6AEEFB9680AAB, 0x4B855EE6B1F52325, 0xEB7A898E787C9DD2, 0x6D755D493B69A5C8,
     0xF4A4EDDBD0263493, 0x18E37A8205EDA1E5, 0x107A23DF7C98DC1B, 0xD3719B496E739DFE,
     0xE4B59D1B605CC4F3]"
  by (simp add: keccak_round_def theta_explicit rho_pi_explicit chi_explicit iota_def rotl64_def)

lemma keccak_round_zero_6:
  "keccak_round
    [0x551803A4E241A4B1, 0x3AEB44DEA1124A86, 0x82CD935418165B75, 0xEB15EB6917AA472B,
     0x8BD6A4DC2CEFF1CB, 0xB05AA91B341E93A4, 0x528CB5E77E11B09E, 0xA3D2DDB37A98ACA9,
     0x20C43C7E1D0802DD, 0x926CF5987C760439, 0x7F85F816D9A715E5, 0xCE063A6081247FDD,
     0x0BD5EE78663C1852, 0x9E4024DF490D33C6, 0x17BDD4C0FFEF34B1, 0x3EA73B5C6E0771E4,
     0x57C6AEEFB9680AAB, 0x4B855EE6B1F52325, 0xEB7A898E787C9DD2, 0x6D755D493B69A5C8,
     0xF4A4EDDBD0263493, 0x18E37A8205EDA1E5, 0x107A23DF7C98DC1B, 0xD3719B496E739DFE,
     0xE4B59D1B605CC4F3]
    0x8000000080008081 =
    [0x10C779D652544967, 0x6F4FBA12AAC86DC6, 0xFBC758CF2C92D37E, 0xF0EE0C91F274A9ED,
     0xF232D393B7D04E28, 0x313F3872AC58EBD6, 0x652D26EBE08574D1, 0x52147E1DC18904C5,
     0xCAA79C8D3B613B63, 0xC8C1F9D7F40A47F4, 0x90987FF807AA6882, 0x2EE43744AE878EA4,
     0xB1D32E450B23F3EB, 0x66BC68757B14C2E0, 0x31D38483FFE3018A, 0xD4D7E847C69EEBDE,
     0x10749CBCA1563E48, 0x1A1D8C490EE0EAF7, 0x01B45C0978FB3CDA, 0xBEADCE75530E2BCD,
     0x1CEFD3D7517DE735, 0x4F3639A73A1F2EB3, 0x56E6D0EDD934D164, 0x051716CCD0D5E4CF,
     0xEB313BA4B4A99402]"
  by (simp add: keccak_round_def theta_explicit rho_pi_explicit chi_explicit iota_def rotl64_def)

lemma keccak_round_zero_7:
  "keccak_round
    [0x10C779D652544967, 0x6F4FBA12AAC86DC6, 0xFBC758CF2C92D37E, 0xF0EE0C91F274A9ED,
     0xF232D393B7D04E28, 0x313F3872AC58EBD6, 0x652D26EBE08574D1, 0x52147E1DC18904C5,
     0xCAA79C8D3B613B63, 0xC8C1F9D7F40A47F4, 0x90987FF807AA6882, 0x2EE43744AE878EA4,
     0xB1D32E450B23F3EB, 0x66BC68757B14C2E0, 0x31D38483FFE3018A, 0xD4D7E847C69EEBDE,
     0x10749CBCA1563E48, 0x1A1D8C490EE0EAF7, 0x01B45C0978FB3CDA, 0xBEADCE75530E2BCD,
     0x1CEFD3D7517DE735, 0x4F3639A73A1F2EB3, 0x56E6D0EDD934D164, 0x051716CCD0D5E4CF,
     0xEB313BA4B4A99402]
    0x8000000000008009 =
    [0x4AD13F0934C4B061, 0x8805BF503DE41A21, 0xDB02B357B22F8A07, 0xDB8CE64517F0A6FD,
     0xE0ACDCD36C425EE4, 0x260A9880D99E52E1, 0x3EB13AEE65D673F4, 0xCE70EA7529C3841B,
     0xDCA8D08AC7A003B9, 0x5B80D506503D28CF, 0xFF78AC756CB10821, 0x554138731D44DEE6,
     0xC1FB1D6473CEAE7E, 0x62B769F5AC272E05, 0x56328713E9B601A8, 0x19E1305B738EAA2C,
     0xDD852DEB9697E282, 0x264FAEECA88DEFFD, 0x72D8809536244BFB, 0xBAF8995453674414,
     0x2EA9AC0CCB5392A8, 0xC5341C0D0C1EF865, 0xD3C070C9829D9EAE, 0x0EAC2233C68CBAC4,
     0xBF724207DE0717B3]"
  by (simp add: keccak_round_def theta_explicit rho_pi_explicit chi_explicit iota_def rotl64_def)

lemma keccak_round_zero_8:
  "keccak_round
    [0x4AD13F0934C4B061, 0x8805BF503DE41A21, 0xDB02B357B22F8A07, 0xDB8CE64517F0A6FD,
     0xE0ACDCD36C425EE4, 0x260A9880D99E52E1, 0x3EB13AEE65D673F4, 0xCE70EA7529C3841B,
     0xDCA8D08AC7A003B9, 0x5B80D506503D28CF, 0xFF78AC756CB10821, 0x554138731D44DEE6,
     0xC1FB1D6473CEAE7E, 0x62B769F5AC272E05, 0x56328713E9B601A8, 0x19E1305B738EAA2C,
     0xDD852DEB9697E282, 0x264FAEECA88DEFFD, 0x72D8809536244BFB, 0xBAF8995453674414,
     0x2EA9AC0CCB5392A8, 0xC5341C0D0C1EF865, 0xD3C070C9829D9EAE, 0x0EAC2233C68CBAC4,
     0xBF724207DE0717B3]
    0x000000000000008A =
    [0x7B4CF28151D15F42, 0x503B351529B867DA, 0xFB89F06EA15214AC, 0x6B449A58D1E21AFA,
     0xA40045295A699BD0, 0xC56C06F842A12917, 0xEC9A4ABF4F60FB18, 0x4A0E4D2F5730A5E7,
     0x9658A46C63F0C078, 0xFBEB88FC459B0AF0, 0x9CDEBE7D1A6EE6FC, 0x3EA6497AE42D4D8B,
     0x7E8EAF7CDB21F0A0, 0x908D96C5D4F035E6, 0xA519F1955405CAD2, 0xDEFBAC06D30662BC,
     0x8C11D7A5803D2503, 0x0E6CFE917E2F8ECF, 0x2CFE3362DE6AF732, 0x9CFED0D27ACCF820,
     0x468BFD925D3B3849, 0x5116437C190B736D, 0x8C2F7303042EEC0B, 0xF10B421EE0F2A76A,
     0xAF5EFFE665F6608C]"
  by (simp add: keccak_round_def theta_explicit rho_pi_explicit chi_explicit iota_def rotl64_def)

lemma keccak_round_zero_9:
  "keccak_round
    [0x7B4CF28151D15F42, 0x503B351529B867DA, 0xFB89F06EA15214AC, 0x6B449A58D1E21AFA,
     0xA40045295A699BD0, 0xC56C06F842A12917, 0xEC9A4ABF4F60FB18, 0x4A0E4D2F5730A5E7,
     0x9658A46C63F0C078, 0xFBEB88FC459B0AF0, 0x9CDEBE7D1A6EE6FC, 0x3EA6497AE42D4D8B,
     0x7E8EAF7CDB21F0A0, 0x908D96C5D4F035E6, 0xA519F1955405CAD2, 0xDEFBAC06D30662BC,
     0x8C11D7A5803D2503, 0x0E6CFE917E2F8ECF, 0x2CFE3362DE6AF732, 0x9CFED0D27ACCF820,
     0x468BFD925D3B3849, 0x5116437C190B736D, 0x8C2F7303042EEC0B, 0xF10B421EE0F2A76A,
     0xAF5EFFE665F6608C]
    0x0000000000000088 =
    [0x8411F7E51B8BFB5A, 0x33D1A8A856EB167D, 0x381D7A9ABF336308, 0x4CA9376F7407E243,
     0xF73284FAD6A65EA5, 0xEA9DFB6F436AB470, 0x64010F62011FC926, 0xFE338099C8A35DEF,
     0x15A30635D465D522, 0xB37CCC4201F24BAC, 0xE44073B6E83717B2, 0xF3FD233310D60F5D,
     0x2D94D2E3ECBA847D, 0xC63E7C1CF1C8B5C9, 0xBA47F5CED4E4EF2F, 0xC9623686A309E144,
     0x1CFF68F3B33D8162, 0xFD9856456B10077A, 0xF7816A8C19C95C8E, 0xEEB2A58259EA33A0,
     0xB94018EF6298337D, 0x742B8B4DD4BED5D2, 0x58502D38B28EA01C, 0xA85F794451FEC320,
     0x80115DC857F5793F]"
  by (simp add: keccak_round_def theta_explicit rho_pi_explicit chi_explicit iota_def rotl64_def)

lemma keccak_round_zero_10:
  "keccak_round
    [0x8411F7E51B8BFB5A, 0x33D1A8A856EB167D, 0x381D7A9ABF336308, 0x4CA9376F7407E243,
     0xF73284FAD6A65EA5, 0xEA9DFB6F436AB470, 0x64010F62011FC926, 0xFE338099C8A35DEF,
     0x15A30635D465D522, 0xB37CCC4201F24BAC, 0xE44073B6E83717B2, 0xF3FD233310D60F5D,
     0x2D94D2E3ECBA847D, 0xC63E7C1CF1C8B5C9, 0xBA47F5CED4E4EF2F, 0xC9623686A309E144,
     0x1CFF68F3B33D8162, 0xFD9856456B10077A, 0xF7816A8C19C95C8E, 0xEEB2A58259EA33A0,
     0xB94018EF6298337D, 0x742B8B4DD4BED5D2, 0x58502D38B28EA01C, 0xA85F794451FEC320,
     0x80115DC857F5793F]
    0x0000000080008009 =
    [0x85197F529722C22F, 0x63AFF460BFA2CF55, 0x8985183C14096EF0, 0x6828500203125670,
     0xEAFDAB1974CE3018, 0xCA5E89CDC27DEDFC, 0x006F815EAF9AEC63, 0xC86F508562FD5023,
     0x46572E5E31CBD4CA, 0xE68E98EC48A2A3D7, 0x9BF6FA8F44CB6E0B, 0xC39F1096BE1111BC,
     0xBA745EC28FD6316B, 0x26DBA2AFBD32EBD3, 0x0974B9E2A0965146, 0xF6788326C4B831C1,
     0xF86AD60A2457C5D8, 0xF6953233C7F017F2, 0x9627BE52DAF0FA1A, 0xA7C721E8994F19AF,
     0xF40E9D307BAA076F, 0xD63D426FAD3CCF9C, 0xFB77614F3A816737, 0x5FF929B01C504C9F,
     0x4A34B6470201523C]"
  by (simp add: keccak_round_def theta_explicit rho_pi_explicit chi_explicit iota_def rotl64_def)

lemma keccak_round_zero_11:
  "keccak_round
    [0x85197F529722C22F, 0x63AFF460BFA2CF55, 0x8985183C14096EF0, 0x6828500203125670,
     0xEAFDAB1974CE3018, 0xCA5E89CDC27DEDFC, 0x006F815EAF9AEC63, 0xC86F508562FD5023,
     0x46572E5E31CBD4CA, 0xE68E98EC48A2A3D7, 0x9BF6FA8F44CB6E0B, 0xC39F1096BE1111BC,
     0xBA745EC28FD6316B, 0x26DBA2AFBD32EBD3, 0x0974B9E2A0965146, 0xF6788326C4B831C1,
     0xF86AD60A2457C5D8, 0xF6953233C7F017F2, 0x9627BE52DAF0FA1A, 0xA7C721E8994F19AF,
     0xF40E9D307BAA076F, 0xD63D426FAD3CCF9C, 0xFB77614F3A816737, 0x5FF929B01C504C9F,
     0x4A34B6470201523C]
    0x000000008000000A =
    [0x685D85601E5A33E2, 0xA656FBE7AB8376B3, 0x2FF7213551402050, 0x45123932AC460470,
     0xB054A714994A09A3, 0x501AA293C66FD2A7, 0xFE07565BAD68E7A3, 0x6EE965FC7FF63863,
     0xA9883B692DD112AD, 0x31F42C9C38EAB90C, 0x2200D9D807069F38, 0x26CF3E35C21DED73,
     0x3D6C1B6FC1829E9D, 0x006EE41D082C22DB, 0x8885C84E379143AC, 0x29266048C870CF26,
     0x9C1D56A1E3A546E8, 0xD7323C25C165C5E7, 0x82EA391AC052F934, 0x43A97AE4E4905AF9,
     0xC9DE5DE628153D7B, 0xD0326DAD2E0D78DD, 0xC8B9422AC46A6F1E, 0x50C69A65FAFC2B23,
     0xB02BC99438F958C3]"
  by (simp add: keccak_round_def theta_explicit rho_pi_explicit chi_explicit iota_def rotl64_def)

lemma keccak_round_zero_12:
  "keccak_round
    [0x685D85601E5A33E2, 0xA656FBE7AB8376B3, 0x2FF7213551402050, 0x45123932AC460470,
     0xB054A714994A09A3, 0x501AA293C66FD2A7, 0xFE07565BAD68E7A3, 0x6EE965FC7FF63863,
     0xA9883B692DD112AD, 0x31F42C9C38EAB90C, 0x2200D9D807069F38, 0x26CF3E35C21DED73,
     0x3D6C1B6FC1829E9D, 0x006EE41D082C22DB, 0x8885C84E379143AC, 0x29266048C870CF26,
     0x9C1D56A1E3A546E8, 0xD7323C25C165C5E7, 0x82EA391AC052F934, 0x43A97AE4E4905AF9,
     0xC9DE5DE628153D7B, 0xD0326DAD2E0D78DD, 0xC8B9422AC46A6F1E, 0x50C69A65FAFC2B23,
     0xB02BC99438F958C3]
    0x000000008000808B =
    [0xCF1C275F863ACFEF, 0x80424C302F6AD6EC, 0xB88F6FC360689917, 0xCEE7DB8AE4188B8B,
     0x02CB2570C0E44EE3, 0x792C4EA7C72A1FDE, 0xFAB3412C7507052E, 0xAE90CB337A364940,
     0x9F44148E52D6E282, 0xD2241D1BA5A65C0D, 0xB6DAFB3B5E47747A, 0x740150A4206D8C48,
     0x41AC4D1DFC34E02A, 0x08AEE30BA8E2AD98, 0xB968C3410311D9EB, 0x38E61B3F9BD85F2F,
     0x6DBA2024FCE83AE8, 0x0A7DACF674E3C68A, 0xB74850AD3E924511, 0xC7DE105AC4A45635,
     0x087DE0F0CE897998, 0x6DBE9E3192AB6CEE, 0x80546EA381312EB3, 0x2175677D0E8AA3A1,
     0xF17DAAE204963529]"
  by (simp add: keccak_round_def theta_explicit rho_pi_explicit chi_explicit iota_def rotl64_def)

lemma keccak_round_zero_13:
  "keccak_round
    [0xCF1C275F863ACFEF, 0x80424C302F6AD6EC, 0xB88F6FC360689917, 0xCEE7DB8AE4188B8B,
     0x02CB2570C0E44EE3, 0x792C4EA7C72A1FDE, 0xFAB3412C7507052E, 0xAE90CB337A364940,
     0x9F44148E52D6E282, 0xD2241D1BA5A65C0D, 0xB6DAFB3B5E47747A, 0x740150A4206D8C48,
     0x41AC4D1DFC34E02A, 0x08AEE30BA8E2AD98, 0xB968C3410311D9EB, 0x38E61B3F9BD85F2F,
     0x6DBA2024FCE83AE8, 0x0A7DACF674E3C68A, 0xB74850AD3E924511, 0xC7DE105AC4A45635,
     0x087DE0F0CE897998, 0x6DBE9E3192AB6CEE, 0x80546EA381312EB3, 0x2175677D0E8AA3A1,
     0xF17DAAE204963529]
    0x800000000000008B =
    [0xF1DBA91788D50045, 0x0175A62F4FC783D8, 0x25AE6C0B84CC7100, 0x031CBD2DA4BBF31B,
     0xDAED79A3A39C16AA, 0xDB8C3637DAD377A3, 0x0CC1E9B6DF8EDF4D, 0xA2B3EC9E9D263793,
     0x98B59CF6211B0123, 0x8659DE963C27C423, 0x3AE6D6DBDCAD1122, 0x81174538866027A7,
     0xBDCF32CADED2FA16, 0x0AD7797E196B2D5A, 0x19E009BF0925080C, 0xBAF7CB4D9588BE6C,
     0x309AD3B3BB1E8EF4, 0x52BB40BFCAA9C7F6, 0x94E6D664508AC330, 0xD34AA37DCA45F1BB,
     0x8E07FEF55E11F47E, 0x11FE0FAA0BBC7A97, 0x14599808F5455319, 0x7FC83234573B6B3A,
     0xEB96803DFEF778EE]"
  by (simp add: keccak_round_def theta_explicit rho_pi_explicit chi_explicit iota_def rotl64_def)

lemma keccak_round_zero_14:
  "keccak_round
    [0xF1DBA91788D50045, 0x0175A62F4FC783D8, 0x25AE6C0B84CC7100, 0x031CBD2DA4BBF31B,
     0xDAED79A3A39C16AA, 0xDB8C3637DAD377A3, 0x0CC1E9B6DF8EDF4D, 0xA2B3EC9E9D263793,
     0x98B59CF6211B0123, 0x8659DE963C27C423, 0x3AE6D6DBDCAD1122, 0x81174538866027A7,
     0xBDCF32CADED2FA16, 0x0AD7797E196B2D5A, 0x19E009BF0925080C, 0xBAF7CB4D9588BE6C,
     0x309AD3B3BB1E8EF4, 0x52BB40BFCAA9C7F6, 0x94E6D664508AC330, 0xD34AA37DCA45F1BB,
     0x8E07FEF55E11F47E, 0x11FE0FAA0BBC7A97, 0x14599808F5455319, 0x7FC83234573B6B3A,
     0xEB96803DFEF778EE]
    0x8000000000008089 =
    [0x73148B8D2F0245FB, 0xC915FDC697007631, 0x7CDE84170C644C74, 0x25F180CDBD2631D2,
     0x3933CFF8558AB4D0, 0x408E57CC08C37EC5, 0xB6029F08CD3F49C9, 0xE6AE91699C11A48B,
     0x9E5ECC937F04B974, 0xA7F766F9CA9F466B, 0xB8A3137FD7B197B5, 0x6DF4F3D90C91975F,
     0x66530F65853B6C12, 0x1A67158A49562055, 0x3C6A24AAE472A009, 0x04A41103560F6CDA,
     0x7AC7A82FCAA06849, 0xDBBA68CBE1AEA774, 0xF2F23DEB653BCDE4, 0xAAFB454FC15BB7E5,
     0x562214D71D0CE028, 0x16EBD15EA51FC336, 0x0D8BE4D7852EF40E, 0x2FE61F2DE0F328D5,
     0x17F352C23C5A1190]"
  by (simp add: keccak_round_def theta_explicit rho_pi_explicit chi_explicit iota_def rotl64_def)

lemma keccak_round_zero_15:
  "keccak_round
    [0x73148B8D2F0245FB, 0xC915FDC697007631, 0x7CDE84170C644C74, 0x25F180CDBD2631D2,
     0x3933CFF8558AB4D0, 0x408E57CC08C37EC5, 0xB6029F08CD3F49C9, 0xE6AE91699C11A48B,
     0x9E5ECC937F04B974, 0xA7F766F9CA9F466B, 0xB8A3137FD7B197B5, 0x6DF4F3D90C91975F,
     0x66530F65853B6C12, 0x1A67158A49562055, 0x3C6A24AAE472A009, 0x04A41103560F6CDA,
     0x7AC7A82FCAA06849, 0xDBBA68CBE1AEA774, 0xF2F23DEB653BCDE4, 0xAAFB454FC15BB7E5,
     0x562214D71D0CE028, 0x16EBD15EA51FC336, 0x0D8BE4D7852EF40E, 0x2FE61F2DE0F328D5,
     0x17F352C23C5A1190]
    0x8000000000008003 =
    [0x92AFD567FB47028D, 0x7C68E3AFD8AA09EC, 0x9CA2270920893F0E, 0x640F8779A7FA753B,
     0x2341739803B03F45, 0x28129055B903C03A, 0x8BCA3E1615F6D501, 0xD5CECDB90B8BAB90,
     0xF0E39E47AADB7069, 0xD2B6B352B08CE8CA, 0x091616551FCDB2EB, 0x2EE0CA6F1FAFB1D8,
     0xA03C8F3CD45A7167, 0xD9A39AFC933BF6E5, 0x0E966D8A4D7CD57D, 0xC96AA19EDBB4A089,
     0xCB78D98828E5DE09, 0xFC6EEC4D9C69F391, 0x8A00E6A197B42F6F, 0xCC2AE39D47DCA270,
     0x3EF87ADDCA674106, 0x35ECC3337693C2C3, 0x7C96185B21A5164C, 0x85157BD932B5974C,
     0xEDC15EC9D3453347]"
  by (simp add: keccak_round_def theta_explicit rho_pi_explicit chi_explicit iota_def rotl64_def)

lemma keccak_round_zero_16:
  "keccak_round
    [0x92AFD567FB47028D, 0x7C68E3AFD8AA09EC, 0x9CA2270920893F0E, 0x640F8779A7FA753B,
     0x2341739803B03F45, 0x28129055B903C03A, 0x8BCA3E1615F6D501, 0xD5CECDB90B8BAB90,
     0xF0E39E47AADB7069, 0xD2B6B352B08CE8CA, 0x091616551FCDB2EB, 0x2EE0CA6F1FAFB1D8,
     0xA03C8F3CD45A7167, 0xD9A39AFC933BF6E5, 0x0E966D8A4D7CD57D, 0xC96AA19EDBB4A089,
     0xCB78D98828E5DE09, 0xFC6EEC4D9C69F391, 0x8A00E6A197B42F6F, 0xCC2AE39D47DCA270,
     0x3EF87ADDCA674106, 0x35ECC3337693C2C3, 0x7C96185B21A5164C, 0x85157BD932B5974C,
     0xEDC15EC9D3453347]
    0x8000000000008002 =
    [0x8B3DDFB85C3DF283, 0xE609B3AB2152BB40, 0x58B34C00332D2107, 0xE1E111E1100BE58E,
     0x504EFC78F79D44B2, 0xB28D11FA2B7D2568, 0xF2733928018081C9, 0xD38C60DB31D6D485,
     0x69F31BA30E5A3D5E, 0x33FEA7085FE25680, 0xC20080FCB3B91EED, 0xA8DA2E782CD311DD,
     0x5C0AB9B2102E832F, 0x15ED7ECA51CB4280, 0xE9758ED088F4FE69, 0x55840DFBDBCB45A9,
     0xE321003F996B88AC, 0xA0D477D915859ED6, 0x7A2A615C9EE96ECD, 0x4B5AA9CA6BA53AB4,
     0x47BC85A433AFB622, 0x65B36F877AD8FD2B, 0x694E27EC3930F055, 0x8A4161F0995C1144,
     0x2A138A9D3795056B]"
  by (simp add: keccak_round_def theta_explicit rho_pi_explicit chi_explicit iota_def rotl64_def)

lemma keccak_round_zero_17:
  "keccak_round
    [0x8B3DDFB85C3DF283, 0xE609B3AB2152BB40, 0x58B34C00332D2107, 0xE1E111E1100BE58E,
     0x504EFC78F79D44B2, 0xB28D11FA2B7D2568, 0xF2733928018081C9, 0xD38C60DB31D6D485,
     0x69F31BA30E5A3D5E, 0x33FEA7085FE25680, 0xC20080FCB3B91EED, 0xA8DA2E782CD311DD,
     0x5C0AB9B2102E832F, 0x15ED7ECA51CB4280, 0xE9758ED088F4FE69, 0x55840DFBDBCB45A9,
     0xE321003F996B88AC, 0xA0D477D915859ED6, 0x7A2A615C9EE96ECD, 0x4B5AA9CA6BA53AB4,
     0x47BC85A433AFB622, 0x65B36F877AD8FD2B, 0x694E27EC3930F055, 0x8A4161F0995C1144,
     0x2A138A9D3795056B]
    0x8000000000000080 =
    [0x94D6CA487F625643, 0xFDF888787E55259C, 0x98A6B5C884FDCF5A, 0x3DCB0992E7D6EB09,
     0x54FFC982257F6439, 0x3C7AC5AA119673DF, 0xFEE44DE22CA48EB1, 0xEE4F0460A360A2FA,
     0xFC3EE3DCDB888A37, 0x538EAAC88CF32886, 0x3590F60CA337E582, 0xABC0F0133ED2395D,
     0xF12FF87A0FB9B7AE, 0xBFFD925E32B674D5, 0x175241D06CC3795B, 0xC2BC47F3AF5E797C,
     0x804584A6D3D498AF, 0x748A47BB7A687AF8, 0xBE5D359680FBB0E7, 0x6B434749125F4B2E,
     0x6E4D0EE0A32B3415, 0x3490208D8A24A271, 0x3537DDC3D83F5246, 0x023D47168BFB36E1,
     0xD500AF61A2D35D2A]"
  by (simp add: keccak_round_def theta_explicit rho_pi_explicit chi_explicit iota_def rotl64_def)

lemma keccak_round_zero_18:
  "keccak_round
    [0x94D6CA487F625643, 0xFDF888787E55259C, 0x98A6B5C884FDCF5A, 0x3DCB0992E7D6EB09,
     0x54FFC982257F6439, 0x3C7AC5AA119673DF, 0xFEE44DE22CA48EB1, 0xEE4F0460A360A2FA,
     0xFC3EE3DCDB888A37, 0x538EAAC88CF32886, 0x3590F60CA337E582, 0xABC0F0133ED2395D,
     0xF12FF87A0FB9B7AE, 0xBFFD925E32B674D5, 0x175241D06CC3795B, 0xC2BC47F3AF5E797C,
     0x804584A6D3D498AF, 0x748A47BB7A687AF8, 0xBE5D359680FBB0E7, 0x6B434749125F4B2E,
     0x6E4D0EE0A32B3415, 0x3490208D8A24A271, 0x3537DDC3D83F5246, 0x023D47168BFB36E1,
     0xD500AF61A2D35D2A]
    0x000000000000800A =
    [0x8321A8FC7345E4F5, 0x7C7254BDE5A4B3FD, 0x49C4535AB6ED809D, 0x69B9036AF2C0BC2D,
     0xAD48DD1431AAD63C, 0xCD6A6D7268F78CD4, 0xBA37A740083E67DC, 0x5EB037D5E61A82D3,
     0x365513687051C481, 0x67AD49202CCF98AE, 0x8183B8A156481734, 0x35A818B3CA0B439F,
     0x2CF452AA486F4F98, 0xB1A928149ECA36CE, 0xB87AF53B12248032, 0x4D813EEDDAED4D0C,
     0xFF20162BD21017E0, 0xFB9EEAAE8D6D24D9, 0xAC9BF25D7DC6973D, 0x22B88713F8F88E43,
     0xC057E05BFE3F916B, 0xF734C2F206153C9D, 0x21D0704F30167D69, 0xB40080EB1D74DB63,
     0x0588DE957C97070A]"
  by (simp add: keccak_round_def theta_explicit rho_pi_explicit chi_explicit iota_def rotl64_def)

lemma keccak_round_zero_19:
  "keccak_round
    [0x8321A8FC7345E4F5, 0x7C7254BDE5A4B3FD, 0x49C4535AB6ED809D, 0x69B9036AF2C0BC2D,
     0xAD48DD1431AAD63C, 0xCD6A6D7268F78CD4, 0xBA37A740083E67DC, 0x5EB037D5E61A82D3,
     0x365513687051C481, 0x67AD49202CCF98AE, 0x8183B8A156481734, 0x35A818B3CA0B439F,
     0x2CF452AA486F4F98, 0xB1A928149ECA36CE, 0xB87AF53B12248032, 0x4D813EEDDAED4D0C,
     0xFF20162BD21017E0, 0xFB9EEAAE8D6D24D9, 0xAC9BF25D7DC6973D, 0x22B88713F8F88E43,
     0xC057E05BFE3F916B, 0xF734C2F206153C9D, 0x21D0704F30167D69, 0xB40080EB1D74DB63,
     0x0588DE957C97070A]
    0x800000008000000A =
    [0xE045EF1E15403281, 0xBE86FD9B55E903C9, 0x4B39215FCF03F68B, 0xF065C4719E3E8364,
     0xFA43E42A90619DFE, 0xC0C02A79822A97FA, 0x8A2020B9EAE760EA, 0x3A87E83AD0314A71,
     0x438EAFFCEDB7FB5E, 0x6DDABE57420B58BE, 0x79FBF61B6E64112C, 0x64E740BF17061242,
     0x022EA3FA49E373C1, 0x3B8B944F424AEBD5, 0x9BF24842AD1F0278, 0x9478109622FD5C14,
     0x4F3F6BB2BB63D96D, 0xF8489FEBA7AE8BD0, 0x803CC717CC60E269, 0x9CFDBB7DEDAC6A00,
     0x93A06B636F36CED9, 0x0A3AE27DEFE3740E, 0x447A57654FF01C5E, 0xD1C6D9BCD4F2956D,
     0xD2C2E30C832FEDAF]"
  by (simp add: keccak_round_def theta_explicit rho_pi_explicit chi_explicit iota_def rotl64_def)

lemma keccak_round_zero_20:
  "keccak_round
    [0xE045EF1E15403281, 0xBE86FD9B55E903C9, 0x4B39215FCF03F68B, 0xF065C4719E3E8364,
     0xFA43E42A90619DFE, 0xC0C02A79822A97FA, 0x8A2020B9EAE760EA, 0x3A87E83AD0314A71,
     0x438EAFFCEDB7FB5E, 0x6DDABE57420B58BE, 0x79FBF61B6E64112C, 0x64E740BF17061242,
     0x022EA3FA49E373C1, 0x3B8B944F424AEBD5, 0x9BF24842AD1F0278, 0x9478109622FD5C14,
     0x4F3F6BB2BB63D96D, 0xF8489FEBA7AE8BD0, 0x803CC717CC60E269, 0x9CFDBB7DEDAC6A00,
     0x93A06B636F36CED9, 0x0A3AE27DEFE3740E, 0x447A57654FF01C5E, 0xD1C6D9BCD4F2956D,
     0xD2C2E30C832FEDAF]
    0x8000000080008081 =
    [0x08998CF7B48D8F9F, 0xFF3BB4F9369112F3, 0x47A535BAFAAFDE3F, 0xBB4A2D6792FAA4CC,
     0x63BD80F5135C1DA4, 0xC919572FDBB9B21F, 0xE2133D549EF092CB, 0xFD3CC7A004072CD8,
     0x89E71458CF679059, 0x5E81583CB83B61F1, 0x7EFBB20320052A30, 0x17CEAB16E595359F,
     0x819E4A2414C92345, 0xF302E78E5787DFF8, 0x272613D85FB92CF7, 0x97A5D0C07AE6EA32,
     0x0853761A08C4A82E, 0x433A1F56465FDED4, 0xA4B095C2C3B683BE, 0xDEC8EAF5B0499048,
     0x3B03AC44DA4E2CB1, 0x778C4E4CF0588991, 0xE87363FB021F181D, 0xA5590B5A08ECCB94,
     0x6FE3F954B853CDFF]"
  by (simp add: keccak_round_def theta_explicit rho_pi_explicit chi_explicit iota_def rotl64_def)

lemma keccak_round_zero_21:
  "keccak_round
    [0x08998CF7B48D8F9F, 0xFF3BB4F9369112F3, 0x47A535BAFAAFDE3F, 0xBB4A2D6792FAA4CC,
     0x63BD80F5135C1DA4, 0xC919572FDBB9B21F, 0xE2133D549EF092CB, 0xFD3CC7A004072CD8,
     0x89E71458CF679059, 0x5E81583CB83B61F1, 0x7EFBB20320052A30, 0x17CEAB16E595359F,
     0x819E4A2414C92345, 0xF302E78E5787DFF8, 0x272613D85FB92CF7, 0x97A5D0C07AE6EA32,
     0x0853761A08C4A82E, 0x433A1F56465FDED4, 0xA4B095C2C3B683BE, 0xDEC8EAF5B0499048,
     0x3B03AC44DA4E2CB1, 0x778C4E4CF0588991, 0xE87363FB021F181D, 0xA5590B5A08ECCB94,
     0x6FE3F954B853CDFF]
    0x8000000000008080 =
    [0xC8D6633C661C3B33, 0xB6C2FD45BB5AC076, 0xE76EBBA97EB7711A, 0x0F18C3E5DF445B04,
     0x52F035892B35E247, 0x8915A1D977561DA1, 0x289360A440479091, 0xFCC2634D3232F0B9,
     0xF6BC67F23C0C73EB, 0x61129B2EAEB75B03, 0x40F649220AD5960B, 0x26D76586F12EB3DB,
     0xF83D4DE5742ADF24, 0xACC223AD32157B17, 0x26BC37E0D77BE8C1, 0x387DF0B5162247C1,
     0x18E9732A81ABB701, 0x2CDEFD7D9377E812, 0xCAFC305B0201D156, 0x16E3777629D6E5C2,
     0x4D9421811B61030A, 0x8E2FE1BD550F3797, 0xF537AB306F382F24, 0xCB1A0CADFD2B55F3,
     0x93108CE1CA01BD91]"
  by (simp add: keccak_round_def theta_explicit rho_pi_explicit chi_explicit iota_def rotl64_def)

lemma keccak_round_zero_22:
  "keccak_round
    [0xC8D6633C661C3B33, 0xB6C2FD45BB5AC076, 0xE76EBBA97EB7711A, 0x0F18C3E5DF445B04,
     0x52F035892B35E247, 0x8915A1D977561DA1, 0x289360A440479091, 0xFCC2634D3232F0B9,
     0xF6BC67F23C0C73EB, 0x61129B2EAEB75B03, 0x40F649220AD5960B, 0x26D76586F12EB3DB,
     0xF83D4DE5742ADF24, 0xACC223AD32157B17, 0x26BC37E0D77BE8C1, 0x387DF0B5162247C1,
     0x18E9732A81ABB701, 0x2CDEFD7D9377E812, 0xCAFC305B0201D156, 0x16E3777629D6E5C2,
     0x4D9421811B61030A, 0x8E2FE1BD550F3797, 0xF537AB306F382F24, 0xCB1A0CADFD2B55F3,
     0x93108CE1CA01BD91]
    0x0000000080000001 =
    [0x147A757DEA1CF7B2, 0xE33E068BE29EFDB1, 0xB093C3AB620C6FBA, 0xD2BD93A7635ECFF7,
     0x8192F0F1615A03CE, 0xA10AAD19B141A814, 0xD04AD496CEEDC13B, 0x6697247B3EAAD84C,
     0xCF972A0815ABA3C6, 0xD60E846D53045EEF, 0x6CFE50DC4DEE8E8D, 0xBA8F45641A1F51FF,
     0x81A95267314FC40E, 0xFE67DE72505633A2, 0xDAC1D4A7242366B4, 0x53C55F657B2CC1C1,
     0xA5653A3341813FC3, 0xE5B781B08D892E8B, 0xE08D4E6225A515CF, 0x4BF8181A40DAB9D9,
     0x9802F9BD3F234A00, 0xFEE6CC90AF4E5068, 0x62E3EC5ACA5C67E0, 0xC5118F48F7BF2534,
     0x5BFCF15FA887D2E2]"
  by (simp add: keccak_round_def theta_explicit rho_pi_explicit chi_explicit iota_def rotl64_def)

lemma keccak_round_zero_23:
  "keccak_round
    [0x147A757DEA1CF7B2, 0xE33E068BE29EFDB1, 0xB093C3AB620C6FBA, 0xD2BD93A7635ECFF7,
     0x8192F0F1615A03CE, 0xA10AAD19B141A814, 0xD04AD496CEEDC13B, 0x6697247B3EAAD84C,
     0xCF972A0815ABA3C6, 0xD60E846D53045EEF, 0x6CFE50DC4DEE8E8D, 0xBA8F45641A1F51FF,
     0x81A95267314FC40E, 0xFE67DE72505633A2, 0xDAC1D4A7242366B4, 0x53C55F657B2CC1C1,
     0xA5653A3341813FC3, 0xE5B781B08D892E8B, 0xE08D4E6225A515CF, 0x4BF8181A40DAB9D9,
     0x9802F9BD3F234A00, 0xFEE6CC90AF4E5068, 0x62E3EC5ACA5C67E0, 0xC5118F48F7BF2534,
     0x5BFCF15FA887D2E2]
    0x8000000080008008 =
    [0xCDD3F776B62832AD, 0x96F1173F44A58442, 0xB2400AB391E4362B, 0xB55FBA97E5495840,
     0x50F63E588293E26D, 0x714CF5E383CBF5B0, 0xE5A12E1BA5AA64DF, 0xEF18C8BC1F264BE7,
     0xBA51E799F4136068, 0x63071015BB41B73A, 0x050574F3C89DEDD9, 0x49E03B82DD82344E,
     0xE1159554BC24DB2D, 0x9BE21DB29BD245F9, 0x9FDBC2146A0E96AB, 0x2484F6C9F6D60856,
     0xE2FFD6759A30683D, 0x7F43F8B2EDD94AAC, 0x57425A266A5C5576, 0x38545AF5E001B697,
     0x8A9E3BEB95E16CCF, 0x00334EF0CCC9FFDC, 0xD10E4D366717EAAF, 0xDFAB9611C97D5C00,
     0x31718D3AE6297D85]"
  by (simp add: keccak_round_def theta_explicit rho_pi_explicit chi_explicit iota_def rotl64_def)

lemma keccak_f_zero:
  "keccak_f
    [0x0000000000000000, 0x0000000000000000, 0x0000000000000000, 0x0000000000000000,
     0x0000000000000000, 0x0000000000000000, 0x0000000000000000, 0x0000000000000000,
     0x0000000000000001, 0x0000000000000000, 0x0000000000000000, 0x0000000000000000,
     0x0000000000000000, 0x0000000000000000, 0x0000000000000000, 0x0000000000000000,
     0x8000000000000000, 0x0000000000000000, 0x0000000000000000, 0x0000000000000000,
     0x0000000000000000, 0x0000000000000000, 0x0000000000000000, 0x0000000000000000,
     0x0000000000000000] =
    [0xCDD3F776B62832AD, 0x96F1173F44A58442, 0xB2400AB391E4362B, 0xB55FBA97E5495840,
     0x50F63E588293E26D, 0x714CF5E383CBF5B0, 0xE5A12E1BA5AA64DF, 0xEF18C8BC1F264BE7,
     0xBA51E799F4136068, 0x63071015BB41B73A, 0x050574F3C89DEDD9, 0x49E03B82DD82344E,
     0xE1159554BC24DB2D, 0x9BE21DB29BD245F9, 0x9FDBC2146A0E96AB, 0x2484F6C9F6D60856,
     0xE2FFD6759A30683D, 0x7F43F8B2EDD94AAC, 0x57425A266A5C5576, 0x38545AF5E001B697,
     0x8A9E3BEB95E16CCF, 0x00334EF0CCC9FFDC, 0xD10E4D366717EAAF, 0xDFAB9611C97D5C00,
     0x31718D3AE6297D85]"
  by (simp only: keccak_f_def keccak_rc_def foldl.simps
      keccak_round_zero_0 keccak_round_zero_1 keccak_round_zero_2 keccak_round_zero_3 keccak_round_zero_4 keccak_round_zero_5
      keccak_round_zero_6 keccak_round_zero_7 keccak_round_zero_8 keccak_round_zero_9 keccak_round_zero_10 keccak_round_zero_11
      keccak_round_zero_12 keccak_round_zero_13 keccak_round_zero_14 keccak_round_zero_15 keccak_round_zero_16 keccak_round_zero_17
      keccak_round_zero_18 keccak_round_zero_19 keccak_round_zero_20 keccak_round_zero_21 keccak_round_zero_22 keccak_round_zero_23)

lemma keccak_pad_zero:
  "keccak_pad (replicate 64 0) = replicate 64 0 @ [1] @ replicate 70 0 @ [0x80]"
  by (simp add: keccak_pad_def)

lemma absorb_zero:
  "map (\<lambda>i. if i < 17 then (replicate 25 (0::u64)) ! i XOR
                 le_lane (take 8 (drop (8 * i) (replicate 64 0 @ [1] @ replicate 70 0 @ [0x80])))
               else (replicate 25 0) ! i) [0..<25] =
    [0x0000000000000000, 0x0000000000000000, 0x0000000000000000, 0x0000000000000000,
     0x0000000000000000, 0x0000000000000000, 0x0000000000000000, 0x0000000000000000,
     0x0000000000000001, 0x0000000000000000, 0x0000000000000000, 0x0000000000000000,
     0x0000000000000000, 0x0000000000000000, 0x0000000000000000, 0x0000000000000000,
     0x8000000000000000, 0x0000000000000000, 0x0000000000000000, 0x0000000000000000,
     0x0000000000000000, 0x0000000000000000, 0x0000000000000000, 0x0000000000000000,
     0x0000000000000000]"
  by code_simp

lemma absorb_block_zero:
  "absorb_block (replicate 25 0) (keccak_pad (replicate 64 0)) =
    [0xCDD3F776B62832AD, 0x96F1173F44A58442, 0xB2400AB391E4362B, 0xB55FBA97E5495840,
     0x50F63E588293E26D, 0x714CF5E383CBF5B0, 0xE5A12E1BA5AA64DF, 0xEF18C8BC1F264BE7,
     0xBA51E799F4136068, 0x63071015BB41B73A, 0x050574F3C89DEDD9, 0x49E03B82DD82344E,
     0xE1159554BC24DB2D, 0x9BE21DB29BD245F9, 0x9FDBC2146A0E96AB, 0x2484F6C9F6D60856,
     0xE2FFD6759A30683D, 0x7F43F8B2EDD94AAC, 0x57425A266A5C5576, 0x38545AF5E001B697,
     0x8A9E3BEB95E16CCF, 0x00334EF0CCC9FFDC, 0xD10E4D366717EAAF, 0xDFAB9611C97D5C00,
     0x31718D3AE6297D85]"
  by (simp only: absorb_block_def keccak_pad_zero absorb_zero keccak_f_zero)

lemma chunks_zero:
  "chunks (length (keccak_pad (replicate 64 0)) div 136) 136 (keccak_pad (replicate 64 0)) =
    [keccak_pad (replicate 64 0)]"
  by (simp add: keccak_pad_zero)

lemma keccak256_zero:
  "keccak256 (replicate 64 0) =
    [0xad, 0x32, 0x28, 0xb6, 0x76, 0xf7, 0xd3, 0xcd, 0x42, 0x84, 0xa5, 0x44, 0x3f, 0x17, 0xf1, 0x96,
     0x2b, 0x36, 0xe4, 0x91, 0xb3, 0x0a, 0x40, 0xb2, 0x40, 0x58, 0x49, 0xe5, 0x97, 0xba, 0x5f, 0xb5]"
proof -
  have "keccak256 (replicate 64 0) =
      concat (map (\<lambda>i. lane_bytes (absorb_block (replicate 25 0) (keccak_pad (replicate 64 0)) ! i))
        [0..<4])"
    by (simp only: keccak256_def Let_def chunks_zero foldl.simps)
  also have "\<dots> =
    [0xad, 0x32, 0x28, 0xb6, 0x76, 0xf7, 0xd3, 0xcd, 0x42, 0x84, 0xa5, 0x44, 0x3f, 0x17, 0xf1, 0x96,
     0x2b, 0x36, 0xe4, 0x91, 0xb3, 0x0a, 0x40, 0xb2, 0x40, 0x58, 0x49, 0xe5, 0x97, 0xba, 0x5f, 0xb5]"
    unfolding absorb_block_zero by (simp add: lane_bytes_def upt_rec)
  finally show ?thesis .
qed

section \<open>Thread stacks and the thread proof\<close>

lemma EmptyThreadsRoot_keccak: "EmptyThreadsRoot = Keccak256Hash (replicate 64 0)"
  by (simp only: EmptyThreadsRoot_def Keccak256Hash_def keccak256_zero)

lemma bytes_EmptyThreadsRoot:
  "bytes EmptyThreadsRoot =
    [0xad, 0x32, 0x28, 0xb6, 0x76, 0xf7, 0xd3, 0xcd, 0x42, 0x84, 0xa5, 0x44, 0x3f, 0x17, 0xf1, 0x96,
     0x2b, 0x36, 0xe4, 0x91, 0xb3, 0x0a, 0x40, 0xb2, 0x40, 0x58, 0x49, 0xe5, 0x97, 0xba, 0x5f, 0xb5]"
  by (simp add: EmptyThreadsRoot_def bytes_Bytes32)

lemma computeThreadRoot_eq:
  "computeThreadRoot root thread =
     Keccak256Hash (bytes root @ bytes (Keccak256Hash (serializeThread thread)))"
  by (simp add: computeThreadRoot_def Let_def)

text \<open>
  C4. The root of a thread stack is the left fold, from the bottom of the stack to its top,
  of \<open>root \<leftarrow> keccak256 (root || keccak256 (serializeThread thread))\<close> from
  \<^verbatim>\<open>EmptyThreadsRoot\<close>, which is the Keccak-256 hash of 64 zero bytes, the constant
  \<^verbatim>\<open>0xad3228b6...5fb5\<close>; the root of the empty stack is that constant.
\<close>

theorem calculateThreadStackRoot_hash_onion:
  "calculateThreadStackRoot stack =
     foldl (\<lambda>root thread.
              Keccak256Hash (bytes root @ bytes (Keccak256Hash (serializeThread thread))))
       EmptyThreadsRoot stack \<and>
   EmptyThreadsRoot = Keccak256Hash (replicate 64 0) \<and>
   bytes EmptyThreadsRoot =
     [0xad, 0x32, 0x28, 0xb6, 0x76, 0xf7, 0xd3, 0xcd, 0x42, 0x84, 0xa5, 0x44, 0x3f, 0x17, 0xf1, 0x96,
      0x2b, 0x36, 0xe4, 0x91, 0xb3, 0x0a, 0x40, 0xb2, 0x40, 0x58, 0x49, 0xe5, 0x97, 0xba, 0x5f, 0xb5] \<and>
   calculateThreadStackRoot [] = EmptyThreadsRoot"
proof -
  have "computeThreadRoot =
      (\<lambda>root thread. Keccak256Hash (bytes root @ bytes (Keccak256Hash (serializeThread thread))))"
    by (intro ext) (rule computeThreadRoot_eq)
  then have fold: "calculateThreadStackRoot stack =
     foldl (\<lambda>root thread.
              Keccak256Hash (bytes root @ bytes (Keccak256Hash (serializeThread thread))))
       EmptyThreadsRoot stack"
    by (simp add: calculateThreadStackRoot_def calculateThreadStackRoot_loop_foldl)
  have empty: "calculateThreadStackRoot [] = EmptyThreadsRoot"
    by (simp add: calculateThreadStackRoot_def)
  from fold EmptyThreadsRoot_keccak bytes_EmptyThreadsRoot empty show ?thesis
    by blast
qed

lemma EncodeThreadProof_nonempty:
  "getActiveThreadStack s \<noteq> [] \<Longrightarrow>
   EncodeThreadProof s =
     Val (serializeThread (last (getActiveThreadStack s)) @
          bytes (calculateThreadStackRoot (butlast (getActiveThreadStack s))))"
  by (simp add: EncodeThreadProof_def Let_def last_conv_nth butlast_conv_take)

lemma EncodeThreadProof_empty:
  "getActiveThreadStack s = [] \<Longrightarrow> EncodeThreadProof s = Panic InvalidEmptyThreadStack"
  by (simp add: EncodeThreadProof_def Let_def)

lemma getCurrentThread_nonempty:
  "getActiveThreadStack s \<noteq> [] \<Longrightarrow> getCurrentThread s = Val (last (getActiveThreadStack s))"
  by (simp add: getCurrentThread_def Let_def last_conv_nth)

lemma getCurrentThread_empty:
  "getActiveThreadStack s = [] \<Longrightarrow> getCurrentThread s = Panic ActiveThreadStackEmpty"
  by (simp add: getCurrentThread_def Let_def)



text \<open>
  C8. \<^verbatim>\<open>StateHash\<close> returns an error exactly when the witness is not 179 bytes long; on 179
  bytes it returns the Keccak-256 hash of the witness with byte 0 replaced by the VM status
  of bytes 80 (exit code) and 81 (exited).
\<close>

theorem StateHash_error_iff:
  "((\<exists>e. StateHash vmStatus sw = Err e) \<longleftrightarrow> length sw \<noteq> 179) \<and>
   (length sw \<noteq> 179 \<longrightarrow> StateHash vmStatus sw = Err (InvalidWitnessLength (length sw) 179)) \<and>
   (length sw = 179 \<longrightarrow>
      (\<exists>h. StateHash vmStatus sw = Val h \<and>
           bytes h = (bytes (Keccak256Hash sw))[0 := vmStatus (sw ! 81 = 1) (sw ! 80)]))"
proof (cases "length sw = 179")
  case True
  then have "StateHash vmStatus sw =
      Val (Bytes32 ((bytes (Keccak256Hash sw))[0 := vmStatus (sw ! 81 = 1) (sw ! 80)]))"
    by (simp add: StateHash_def STATE_WITNESS_SIZE_def stateHashFromWitness_179)
  moreover have "bytes (Bytes32 ((bytes (Keccak256Hash sw))[0 := vmStatus (sw ! 81 = 1) (sw ! 80)])) =
      (bytes (Keccak256Hash sw))[0 := vmStatus (sw ! 81 = 1) (sw ! 80)]"
    by (simp add: bytes_Bytes32)
  ultimately show ?thesis
    using True by auto
next
  case False
  then show ?thesis
    by (simp add: StateHash_def STATE_WITNESS_SIZE_def)
qed

theorem StateHash_error_iff_witness:
  "(\<exists>h. StateHash (\<lambda>exited exitCode. if exited then exitCode else 3) (replicate 179 0) = Val h \<and>
        bytes h = (bytes (Keccak256Hash (replicate 179 0)))[0 := 3]) \<and>
   StateHash (\<lambda>exited exitCode. if exited then exitCode else 3) (replicate 178 0) =
     Err (InvalidWitnessLength 178 179)"
  using StateHash_error_iff [of "\<lambda>exited exitCode. if exited then exitCode else 3" "replicate 179 0"]
    StateHash_error_iff [of "\<lambda>exited exitCode. if exited then exitCode else 3" "replicate 178 0"]
  by simp

text \<open>
  C10. \<^verbatim>\<open>GetPC\<close>, \<^verbatim>\<open>GetRegisters\<close> and \<^verbatim>\<open>EncodeThreadProof\<close> panic when the active stack (the
  right one if \<^verbatim>\<open>TraverseRight\<close>, else the left one) is empty, and return a value, read from
  the top of the active stack, when it is not.
\<close>

theorem current_thread_needs_active_stack:
  "getActiveThreadStack s = (if TraverseRight s then RightThreadStack s else LeftThreadStack s) \<and>
   (getActiveThreadStack s = [] \<longrightarrow>
      GetPC s = Panic ActiveThreadStackEmpty \<and>
      GetRegisters s = Panic ActiveThreadStackEmpty \<and>
      EncodeThreadProof s = Panic InvalidEmptyThreadStack) \<and>
   (getActiveThreadStack s \<noteq> [] \<longrightarrow>
      GetPC s = Val (PC (Cpu (last (getActiveThreadStack s)))) \<and>
      GetRegisters s = Val (Registers (last (getActiveThreadStack s))) \<and>
      (\<exists>out. EncodeThreadProof s = Val out))"
  by (simp add: GetPC_def GetRegisters_def getCurrentThread_nonempty getCurrentThread_empty
      EncodeThreadProof_nonempty EncodeThreadProof_empty)
    (simp add: getActiveThreadStack_def)

theorem current_thread_needs_active_stack_witness:
  "GetPC (CreateEmptyState ()) = Val 0 \<and>
   GetRegisters (CreateEmptyState ()) = Val (Regs32 (replicate 32 0)) \<and>
   (\<exists>out. EncodeThreadProof (CreateEmptyState ()) = Val out) \<and>
   GetPC ((CreateEmptyState ())\<lparr>TraverseRight := True\<rparr>) = Panic ActiveThreadStackEmpty \<and>
   GetRegisters ((CreateEmptyState ())\<lparr>TraverseRight := True\<rparr>) = Panic ActiveThreadStackEmpty \<and>
   EncodeThreadProof ((CreateEmptyState ())\<lparr>TraverseRight := True\<rparr>) =
     Panic InvalidEmptyThreadStack"
  using current_thread_needs_active_stack [of "CreateEmptyState ()"]
    current_thread_needs_active_stack [of "(CreateEmptyState ())\<lparr>TraverseRight := True\<rparr>"]
  by (simp add: CreateEmptyState_def CreateEmptyThread_def)

section \<open>Reading preimages\<close>

lemma length_prefixedStream [simp]: "length (prefixedStream data) = 8 + length data"
  by (simp add: prefixedStream_def)

lemma Uint64_prefixedStream: "Uint64 (take 8 (prefixedStream data)) = of_nat (length data)"
  by (simp add: prefixedStream_def)

lemma bytes_copy32:
  "bytes (fst (copy32 src)) = take 32 src @ replicate (32 - length src) 0"
  by (simp add: copy32_def bytes_Bytes32)

lemma snd_copy32: "snd (copy32 src) = min 32 (length src)"
  by (simp add: copy32_def)

text \<open>The stream \<^verbatim>\<open>ReadPreimage\<close> reads from, after its check of the key.\<close>

lemma ReadPreimage_eq:
  "ReadPreimage p key offset =
    (let preimage = (if key \<noteq> lastPreimageKey p then prefixedStream (po p key) else lastPreimage p)
     in if length preimage < unat offset then Panic SliceBoundsOutOfRange
        else Val (p\<lparr>lastPreimageKey := key, lastPreimage := preimage, lastPreimageOffset := offset\<rparr>,
                  fst (copy32 (drop (unat offset) preimage)),
                  of_nat (snd (copy32 (drop (unat offset) preimage))),
                  if key \<noteq> lastPreimageKey p then [key] else []))"
  by (simp add: ReadPreimage_def Let_def prefixedStream_def AppendUint64_def split_beta)

lemma ReadPreimage_in_step:
  assumes "key \<noteq> lastPreimageKey p \<or> lastPreimage p = prefixedStream (po p key)"
  shows "ReadPreimage p key offset =
    (if 8 + length (po p key) < unat offset then Panic SliceBoundsOutOfRange
     else Val (p\<lparr>lastPreimageKey := key, lastPreimage := prefixedStream (po p key),
                 lastPreimageOffset := offset\<rparr>,
               fst (copy32 (drop (unat offset) (prefixedStream (po p key)))),
               of_nat (snd (copy32 (drop (unat offset) (prefixedStream (po p key))))),
               if key \<noteq> lastPreimageKey p then [key] else []))"
proof -
  from assms have "(if key \<noteq> lastPreimageKey p then prefixedStream (po p key) else lastPreimage p) =
      prefixedStream (po p key)"
    by auto
  then show ?thesis
    by (simp add: ReadPreimage_eq Let_def)
qed

text \<open>
  A reader is in step with the oracle for \<open>key\<close> when \<open>key\<close> is not the cached key or the
  cached stream is the length-prefixed data of \<open>key\<close>. For such a reader and every offset up to
  the length of that stream, \<^verbatim>\<open>ReadPreimage\<close> returns \<open>n = min 32 (8 + length data - offset)\<close>
  and a chunk whose first \<open>n\<close> bytes are the stream from \<open>offset\<close> on and whose other bytes
  are zero; afterwards the cache holds \<open>key\<close> and the whole stream, and the oracle was asked
  only if \<open>key\<close> was not the cached key.
\<close>

lemma ReadPreimage_chunk:
  assumes "key \<noteq> lastPreimageKey p \<or> lastPreimage p = prefixedStream (po p key)"
    and "unat offset \<le> 8 + length (po p key)"
  shows "\<exists>p' dat n asked. ReadPreimage p key offset = Val (p', dat, n, asked) \<and>
     unat n = min 32 (8 + length (po p key) - unat offset) \<and>
     take (unat n) (bytes dat) = take 32 (drop (unat offset) (prefixedStream (po p key))) \<and>
     drop (unat n) (bytes dat) = replicate (32 - unat n) 0 \<and>
     prefixedStream (po p key) = AppendUint64 [] (of_nat (length (po p key))) @ po p key \<and>
     Uint64 (take 8 (prefixedStream (po p key))) = of_nat (length (po p key)) \<and>
     lastPreimageKey p' = key \<and> lastPreimage p' = prefixedStream (po p key) \<and>
     lastPreimageOffset p' = offset \<and> po p' = po p \<and>
     asked = (if key = lastPreimageKey p then [] else [key])"
proof -
  let ?stream = "prefixedStream (po p key)"
  let ?src = "drop (unat offset) ?stream"
  let ?n = "min 32 (8 + length (po p key) - unat offset)"
  let ?p' = "p\<lparr>lastPreimageKey := key, lastPreimage := ?stream, lastPreimageOffset := offset\<rparr>"
  have len: "length ?src = 8 + length (po p key) - unat offset"
    by simp
  have r: "ReadPreimage p key offset =
      Val (?p', fst (copy32 ?src), of_nat (snd (copy32 ?src)),
           if key = lastPreimageKey p then [] else [key])"
    using assms by (simp add: ReadPreimage_in_step)
  have n: "unat (of_nat (snd (copy32 ?src)) :: u64) = ?n"
  proof -
    have "?n \<le> 32" by simp
    then have "?n mod 2 ^ 64 = ?n" by simp
    then show ?thesis
      by (simp add: snd_copy32 unat_of_nat)
  qed
  have t: "take ?n (bytes (fst (copy32 ?src))) = take 32 ?src"
    by (simp add: bytes_copy32 min_def)
  have d: "drop ?n (bytes (fst (copy32 ?src))) = replicate (32 - ?n) 0"
    by (simp add: bytes_copy32 min_def)
  have s: "?stream = AppendUint64 [] (of_nat (length (po p key))) @ po p key"
    by (simp add: prefixedStream_def)
  have u: "Uint64 (take 8 ?stream) = of_nat (length (po p key))"
    by (rule Uint64_prefixedStream)
  from r n t d s u show ?thesis
    by (intro exI [of _ ?p'] exI [of _ "fst (copy32 ?src)"]
        exI [of _ "of_nat (snd (copy32 ?src)) :: u64"]
        exI [of _ "if key = lastPreimageKey p then [] else [key]"]) simp
qed

lemma Bytes32_eq_iff:
  "length xs = 32 \<Longrightarrow> length ys = 32 \<Longrightarrow> Bytes32 xs = Bytes32 ys \<longleftrightarrow> xs = ys"
  by (simp add: Bytes32_inject)

lemma ReadPreimage_chunk_example:
  "\<exists>p' dat n asked.
     ReadPreimage (NewTrackingPreimageOracleReader bytes) (Bytes32 (replicate 32 1)) 36 =
       Val (p', dat, n, asked) \<and>
     unat n = 4 \<and> take (unat n) (bytes dat) = replicate 4 1 \<and>
     drop (unat n) (bytes dat) = replicate 28 0 \<and>
     lastPreimageKey p' = Bytes32 (replicate 32 1) \<and>
     lastPreimage p' = [0, 0, 0, 0, 0, 0, 0, 32] @ replicate 32 1 \<and>
     asked = [Bytes32 (replicate 32 1)]"
proof -
  let ?R = "NewTrackingPreimageOracleReader bytes"
  let ?K = "Bytes32 (replicate 32 1)"
  have k: "?K \<noteq> lastPreimageKey ?R"
    by (simp add: NewTrackingPreimageOracleReader_def Bytes32_eq_iff)
  have d: "po ?R ?K = replicate 32 1"
    by (simp add: NewTrackingPreimageOracleReader_def bytes_Bytes32)
  have s: "prefixedStream (replicate 32 (1::byte)) = [0, 0, 0, 0, 0, 0, 0, 32] @ replicate 32 1"
    by (simp add: prefixedStream_def AppendUint64_def)
  have h1: "?K \<noteq> lastPreimageKey ?R \<or> lastPreimage ?R = prefixedStream (po ?R ?K)"
    using k by simp
  have h2: "unat (36 :: u64) \<le> 8 + length (po ?R ?K)"
    by (simp add: d)
  from ReadPreimage_chunk [OF h1 h2] obtain p' dat n asked where
    r: "ReadPreimage ?R ?K 36 = Val (p', dat, n, asked)" and
    n: "unat n = min 32 (8 + length (po ?R ?K) - unat (36 :: u64))" and
    tk: "take (unat n) (bytes dat) = take 32 (drop (unat (36 :: u64)) (prefixedStream (po ?R ?K)))" and
    dr: "drop (unat n) (bytes dat) = replicate (32 - unat n) 0" and
    lk: "lastPreimageKey p' = ?K" and
    lp: "lastPreimage p' = prefixedStream (po ?R ?K)" and
    a: "asked = (if ?K = lastPreimageKey ?R then [] else [?K])"
    by blast
  from n have n4: "unat n = 4"
    by (simp add: d)
  from tk have tk4: "take (unat n) (bytes dat) = replicate 4 1"
    by (simp add: d s)
  from dr n4 have dr4: "drop (unat n) (bytes dat) = replicate 28 0"
    by simp
  from lp have lp4: "lastPreimage p' = [0, 0, 0, 0, 0, 0, 0, 32] @ replicate 32 1"
    by (simp only: d s)
  from a k have a4: "asked = [?K]"
    by simp
  from r n4 tk4 dr4 lk lp4 a4 show ?thesis
    by blast
qed

text \<open>
  The panic of the slice expression: \<^verbatim>\<open>ReadPreimage\<close> panics exactly when \<open>offset\<close> exceeds the
  length of the stream it reads from after its check of the key, and never returns an error;
  for a reader in step with the oracle for \<open>key\<close> that length is \<open>8 + length data\<close>.
\<close>

lemma ReadPreimage_panics_iff:
  "(ReadPreimage p key offset = Panic SliceBoundsOutOfRange \<longleftrightarrow>
      length (if key \<noteq> lastPreimageKey p then prefixedStream (po p key) else lastPreimage p) <
        unat offset) \<and>
   ((\<exists>p' dat n asked. ReadPreimage p key offset = Val (p', dat, n, asked)) \<longleftrightarrow>
      unat offset \<le>
        length (if key \<noteq> lastPreimageKey p then prefixedStream (po p key) else lastPreimage p)) \<and>
   (\<forall>e. ReadPreimage p key offset \<noteq> Err e) \<and>
   (key \<noteq> lastPreimageKey p \<or> lastPreimage p = prefixedStream (po p key) \<longrightarrow>
      (ReadPreimage p key offset = Panic SliceBoundsOutOfRange \<longleftrightarrow>
         8 + length (po p key) < unat offset) \<and>
      ((\<exists>p' dat n asked. ReadPreimage p key offset = Val (p', dat, n, asked)) \<longleftrightarrow>
         unat offset \<le> 8 + length (po p key)))"
proof -
  let ?stream = "if key \<noteq> lastPreimageKey p then prefixedStream (po p key) else lastPreimage p"
  have a: "ReadPreimage p key offset = Panic SliceBoundsOutOfRange \<longleftrightarrow> length ?stream < unat offset"
    by (simp add: ReadPreimage_eq Let_def)
  have b: "(\<exists>p' dat n asked. ReadPreimage p key offset = Val (p', dat, n, asked)) \<longleftrightarrow>
      unat offset \<le> length ?stream"
    by (simp add: ReadPreimage_eq Let_def not_less)
  have c: "\<forall>e. ReadPreimage p key offset \<noteq> Err e"
    by (simp add: ReadPreimage_eq Let_def)
  have d: "length ?stream = 8 + length (po p key)"
    if "key \<noteq> lastPreimageKey p \<or> lastPreimage p = prefixedStream (po p key)"
    using that by auto
  from a b c d show ?thesis
    by metis
qed

lemma ReadPreimage_panics_iff_example:
  "ReadPreimage (NewTrackingPreimageOracleReader bytes) (Bytes32 (replicate 32 1)) 41 =
     Panic SliceBoundsOutOfRange \<and>
   (\<exists>p' dat n asked.
      ReadPreimage (NewTrackingPreimageOracleReader bytes) (Bytes32 (replicate 32 1)) 40 =
        Val (p', dat, n, asked))"
proof -
  have k: "Bytes32 (replicate 32 1) \<noteq> lastPreimageKey (NewTrackingPreimageOracleReader bytes)"
    by (simp add: NewTrackingPreimageOracleReader_def Bytes32_eq_iff)
  have d: "po (NewTrackingPreimageOracleReader bytes) (Bytes32 (replicate 32 1)) = replicate 32 1"
    by (simp add: NewTrackingPreimageOracleReader_def bytes_Bytes32)
  from k show ?thesis
    using ReadPreimage_panics_iff [of "NewTrackingPreimageOracleReader bytes" "Bytes32 (replicate 32 1)" 41]
      ReadPreimage_panics_iff [of "NewTrackingPreimageOracleReader bytes" "Bytes32 (replicate 32 1)" 40]
    by (simp add: d)
qed

text \<open>
  A fresh reader has the all-zero key as its cached key and the empty stream as its cached
  stream, although it has fetched nothing: it is in step with the oracle for every key but
  the all-zero one. A call that returns leaves the reader in step for the key it was asked.
\<close>

lemma fresh_reader_in_step_iff:
  "(key \<noteq> lastPreimageKey (NewTrackingPreimageOracleReader oracle) \<or>
    lastPreimage (NewTrackingPreimageOracleReader oracle) =
      prefixedStream (po (NewTrackingPreimageOracleReader oracle) key)) \<longleftrightarrow>
   key \<noteq> Bytes32 (replicate 32 0)"
proof -
  have "prefixedStream (oracle key) \<noteq> []"
    by (simp add: prefixedStream_def AppendUint64_def)
  then show ?thesis
    by (auto simp: NewTrackingPreimageOracleReader_def)
qed

lemma ReadPreimage_leaves_in_step:
  assumes "key \<noteq> lastPreimageKey p \<or> lastPreimage p = prefixedStream (po p key)"
    and "ReadPreimage p key offset = Val (p', dat, n, asked)"
  shows "lastPreimageKey p' = key \<and> lastPreimage p' = prefixedStream (po p' key)"
  using assms by (auto simp: ReadPreimage_in_step split: if_splits)

text \<open>
  C6. The claim says that for every key and every offset within the prefixed stream,
  \<^verbatim>\<open>ReadPreimage\<close> returns \<open>n = min 32 (8 + length data - offset)\<close> bytes of that stream, and
  asks the oracle when the key is not the one it has cached data for. On a fresh reader,
  asked for the all-zero key at offset 0, with an oracle whose data for that key are 32
  bytes, \<^verbatim>\<open>ReadPreimage\<close> returns \<open>n = 0\<close> and a zero chunk, has not asked the oracle and leaves
  the reader as it was; offset 0 is within the stream and the claim's \<open>n\<close> is 32.
\<close>

theorem ReadPreimage_fresh_reader_zero_key:
  "ReadPreimage (NewTrackingPreimageOracleReader bytes) (Bytes32 (replicate 32 0)) 0 =
     Val (NewTrackingPreimageOracleReader bytes, Bytes32 (replicate 32 0), 0, []) \<and>
   unat (0 :: u64) \<le> 8 + length (bytes (Bytes32 (replicate 32 0))) \<and>
   min 32 (8 + length (bytes (Bytes32 (replicate 32 0))) - unat (0 :: u64)) = 32"
  by (simp add: ReadPreimage_eq NewTrackingPreimageOracleReader_def copy32_def)

text \<open>
  C9. The claim says that \<open>offset \<le> 8 + length data\<close> makes \<^verbatim>\<open>ReadPreimage\<close> total. On a fresh
  reader, asked for the all-zero key at offset 1, with an oracle whose data for that key are
  32 bytes, the slice expression is out of range and \<^verbatim>\<open>ReadPreimage\<close> panics, although
  \<open>1 \<le> 8 + 32\<close>.
\<close>

theorem ReadPreimage_fresh_reader_zero_key_panics:
  "ReadPreimage (NewTrackingPreimageOracleReader bytes) (Bytes32 (replicate 32 0)) 1 =
     Panic SliceBoundsOutOfRange \<and>
   unat (1 :: u64) \<le> 8 + length (bytes (Bytes32 (replicate 32 0)))"
  by (simp add: ReadPreimage_eq NewTrackingPreimageOracleReader_def)

section \<open>Loading segments\<close>

lemma unat_HEAP_START: "unat HEAP_START = 2 ^ 60"
  by (simp add: HEAP_START_def)

lemma heap_check_iff:
  "unat (Vaddr prog) + unat (Memsz prog) < 2 ^ 64 \<Longrightarrow>
   HEAP_START \<le> Vaddr prog + Memsz prog \<longleftrightarrow> reachesHeap prog"
proof -
  assume "unat (Vaddr prog) + unat (Memsz prog) < 2 ^ 64"
  then have "unat (Vaddr prog + Memsz prog) = unat (Vaddr prog) + unat (Memsz prog)"
    using unat_add_lem [of "Vaddr prog" "Memsz prog"] by simp
  then show ?thesis
    by (simp add: word_le_nat_alt reachesHeap_def)
qed

lemma segmentReader_valid:
  assumes "endFits maxAlloc prog" and "\<not> invalidFileSize prog" and "\<not> reachesHeap prog"
  shows "segmentReader maxAlloc i prog = Val (segmentBytes prog)"
proof -
  from assms(3) have m: "unat (Memsz prog) < 2 ^ 60"
    by (simp add: reachesHeap_def unat_HEAP_START)
  from assms(2) have le: "unat (Filesz prog) \<le> unat (Memsz prog)"
    by (auto simp: invalidFileSize_def split: if_splits)
  with m have f: "unat (Filesz prog) < 2 ^ 63"
    by simp
  then have sr: "sectionReader prog = take (unat (Filesz prog)) (Contents prog)"
    by (simp add: sectionReader_def)
  show ?thesis
  proof (cases "Filesz prog = Memsz prog")
    case True
    then show ?thesis
      by (simp add: segmentReader_def Let_def sr segmentBytes_def)
  next
    case False
    then have ne: "unat (Filesz prog) \<noteq> unat (Memsz prog)"
      by (simp add: word_unat_eq_iff)
    with assms(2) have load: "Type prog = PT_LOAD"
      by (auto simp: invalidFileSize_def split: if_splits)
    from ne le have lt: "Filesz prog < Memsz prog"
      by (simp add: word_less_nat_alt)
    then have "Filesz prog \<le> Memsz prog"
      by simp
    then have sub: "unat (Memsz prog - Filesz prog) = unat (Memsz prog) - unat (Filesz prog)"
      by (rule unat_sub)
    with assms(1) have "unat (Memsz prog - Filesz prog) < 2 ^ 63"
      "unat (Memsz prog - Filesz prog) \<le> maxAlloc"
      by (simp_all add: endFits_def)
    with False load lt sub show ?thesis
      by (simp add: segmentReader_def Let_def sr segmentBytes_def)
  qed
qed

lemma segmentReader_invalid:
  assumes "invalidFileSize prog"
  shows "\<exists>e. segmentReader maxAlloc i prog = Err e"
proof (cases "Type prog = PT_LOAD")
  case True
  with assms have "unat (Memsz prog) < unat (Filesz prog)"
    by (simp add: invalidFileSize_def)
  then have "Memsz prog < Filesz prog"
    by (simp add: word_less_nat_alt)
  then have "Filesz prog \<noteq> Memsz prog" "\<not> Filesz prog < Memsz prog"
    by auto
  with True show ?thesis
    by (simp add: segmentReader_def Let_def)
next
  case False
  with assms have "Filesz prog \<noteq> Memsz prog"
    by (auto simp: invalidFileSize_def)
  with False show ?thesis
    by (simp add: segmentReader_def Let_def)
qed

lemma segmentReader_no_panic:
  assumes "endFits maxAlloc prog"
  shows "segmentReader maxAlloc i prog \<noteq> Panic c"
proof (cases "Filesz prog < Memsz prog")
  case True
  then have "Filesz prog \<le> Memsz prog"
    by simp
  then have "unat (Memsz prog - Filesz prog) = unat (Memsz prog) - unat (Filesz prog)"
    by (rule unat_sub)
  with assms have "unat (Memsz prog - Filesz prog) < 2 ^ 63"
    "unat (Memsz prog - Filesz prog) \<le> maxAlloc"
    by (simp_all add: endFits_def)
  then show ?thesis
    by (simp add: segmentReader_def Let_def)
next
  case False
  then show ?thesis
    by (simp add: segmentReader_def Let_def)
qed

text \<open>One turn of the loop on a segment that is not skipped.\<close>

lemma LoadELF_loop_valid:
  assumes "\<not> skipped prog" and "endFits maxAlloc prog" and "\<not> invalidFileSize prog"
    and "\<not> reachesHeap prog" and "setMemoryRange (Vaddr prog) (segmentBytes prog) s = Some s'"
  shows "LoadELF_loop maxAlloc setMemoryRange i (prog # progs) s =
     LoadELF_loop maxAlloc setMemoryRange (i + 1) progs s'"
proof -
  from assms(2) have "unat (Vaddr prog) + unat (Memsz prog) < 2 ^ 64"
    by (simp add: endFits_def)
  with assms(4) have "\<not> HEAP_START \<le> Vaddr prog + Memsz prog"
    by (simp add: heap_check_iff)
  with assms show ?thesis
    by (simp add: segmentReader_valid skipped_def)
qed

lemma LoadELF_loop_rejected:
  assumes "\<not> skipped prog" and "endFits maxAlloc prog" and "invalidFileSize prog \<or> reachesHeap prog"
  shows "\<exists>e. LoadELF_loop maxAlloc setMemoryRange i (prog # progs) s = Err e"
proof (cases "invalidFileSize prog")
  case True
  then obtain e where "segmentReader maxAlloc i prog = Err e"
    using segmentReader_invalid by blast
  with assms(1) show ?thesis
    by (simp add: skipped_def)
next
  case False
  with assms(3) have r: "reachesHeap prog"
    by simp
  from assms(2) have "unat (Vaddr prog) + unat (Memsz prog) < 2 ^ 64"
    by (simp add: endFits_def)
  with r have h: "HEAP_START \<le> Vaddr prog + Memsz prog"
    by (simp add: heap_check_iff)
  from assms(2) have "\<forall>c. segmentReader maxAlloc i prog \<noteq> Panic c"
    by (simp add: segmentReader_no_panic)
  with assms(1) h show ?thesis
    by (cases "segmentReader maxAlloc i prog") (simp_all add: skipped_def)
qed

lemma LoadELF_loop_skipped:
  "skipped prog \<Longrightarrow>
   LoadELF_loop maxAlloc setMemoryRange i (prog # progs) s = LoadELF_loop maxAlloc setMemoryRange (i + 1) progs s"
  by (simp add: skipped_def)

lemma LoadELF_loop_all_valid:
  assumes "\<forall>a r s. setMemoryRange a r s = Some (write a r s)"
  shows "\<forall>p \<in> set (filter (\<lambda>p. \<not> skipped p) progs).
           endFits maxAlloc p \<and> \<not> invalidFileSize p \<and> \<not> reachesHeap p \<Longrightarrow>
     LoadELF_loop maxAlloc setMemoryRange i progs s =
       Val (foldl (\<lambda>s p. write (Vaddr p) (segmentBytes p) s) s
              (filter (\<lambda>p. \<not> skipped p) progs))"
proof (induction progs arbitrary: i s)
  case Nil
  show ?case by simp
next
  case (Cons prog progs)
  show ?case
  proof (cases "skipped prog")
    case True
    with Cons show ?thesis
      by (simp add: LoadELF_loop_skipped del: LoadELF_loop.simps)
  next
    case False
    with Cons.prems have ok: "endFits maxAlloc prog" "\<not> invalidFileSize prog" "\<not> reachesHeap prog"
      and rest: "\<forall>p \<in> set (filter (\<lambda>p. \<not> skipped p) progs).
           endFits maxAlloc p \<and> \<not> invalidFileSize p \<and> \<not> reachesHeap p"
      by simp_all
    from assms have w: "setMemoryRange (Vaddr prog) (segmentBytes prog) s =
        Some (write (Vaddr prog) (segmentBytes prog) s)"
      by simp
    from LoadELF_loop_valid [where setMemoryRange = setMemoryRange and s = s, OF False ok w]
      Cons.IH [OF rest] False show ?thesis
      by (simp del: LoadELF_loop.simps)
  qed
qed

lemma LoadELF_loop_some_rejected:
  assumes "\<forall>a r s. setMemoryRange a r s = Some (write a r s)"
  shows "\<forall>p \<in> set (filter (\<lambda>p. \<not> skipped p) progs). endFits maxAlloc p \<Longrightarrow>
     \<exists>p \<in> set (filter (\<lambda>p. \<not> skipped p) progs). invalidFileSize p \<or> reachesHeap p \<Longrightarrow>
     \<exists>e. LoadELF_loop maxAlloc setMemoryRange i progs s = Err e"
proof (induction progs arbitrary: i s)
  case Nil
  then show ?case by simp
next
  case (Cons prog progs)
  show ?case
  proof (cases "skipped prog")
    case True
    with Cons show ?thesis
      by (simp add: LoadELF_loop_skipped del: LoadELF_loop.simps)
  next
    case False
    with Cons.prems(1) have fits: "endFits maxAlloc prog"
      and rest: "\<forall>p \<in> set (filter (\<lambda>p. \<not> skipped p) progs). endFits maxAlloc p"
      by simp_all
    show ?thesis
    proof (cases "invalidFileSize prog \<or> reachesHeap prog")
      case True
      from LoadELF_loop_rejected [OF False fits True] show ?thesis .
    next
      case bad_later: False
      with Cons.prems(2) False
      have later: "\<exists>p \<in> set (filter (\<lambda>p. \<not> skipped p) progs). invalidFileSize p \<or> reachesHeap p"
        by auto
      from bad_later have ok: "\<not> invalidFileSize prog" "\<not> reachesHeap prog"
        by simp_all
      from assms have w: "setMemoryRange (Vaddr prog) (segmentBytes prog) s =
          Some (write (Vaddr prog) (segmentBytes prog) s)"
        by simp
      from LoadELF_loop_valid [where setMemoryRange = setMemoryRange and s = s, OF False fits ok w]
        Cons.IH [OF rest later] show ?thesis
        by (simp del: LoadELF_loop.simps)
    qed
  qed
qed

text \<open>
  What \<^verbatim>\<open>LoadELF\<close> does on a file in which, for every segment that is not skipped, the end
  address \<open>Vaddr + Memsz\<close> fits 64 bits and the padding can be allocated, with a memory whose
  writes succeed: it never panics; it returns an error exactly when such a segment has an
  invalid file size or has \<open>Vaddr + Memsz \<ge> HEAP_START\<close>; otherwise it returns the initial
  state after the writes of the segments, in order.
\<close>

lemma LoadELF_outcome:
  assumes "loaded = filter (\<lambda>p. Type p \<noteq> 0x70000003) (Progs f)"
    and "\<forall>p \<in> set loaded. unat (Vaddr p) + unat (Memsz p) < 2 ^ 64 \<and>
           unat (Memsz p) - unat (Filesz p) < 2 ^ 63 \<and>
           unat (Memsz p) - unat (Filesz p) \<le> maxAlloc"
    and "\<forall>a r s. setMemoryRange a r s = Some (write a r s)"
  shows "unat HEAP_START = 0x1000000000000000 \<and>
     ((\<exists>e. LoadELF maxAlloc setMemoryRange initState f = Err e) \<longleftrightarrow>
        (\<exists>p \<in> set loaded.
           (if Type p = PT_LOAD then unat (Memsz p) < unat (Filesz p)
            else unat (Filesz p) \<noteq> unat (Memsz p)) \<or>
           unat HEAP_START \<le> unat (Vaddr p) + unat (Memsz p))) \<and>
     (\<forall>c. LoadELF maxAlloc setMemoryRange initState f \<noteq> Panic c) \<and>
     (\<not> (\<exists>e. LoadELF maxAlloc setMemoryRange initState f = Err e) \<longrightarrow>
        LoadELF maxAlloc setMemoryRange initState f =
          Val (foldl (\<lambda>s p. write (Vaddr p)
                               (take (unat (Filesz p)) (Contents p) @
                                replicate (unat (Memsz p) - unat (Filesz p)) 0) s)
                 (initState (Entry f) HEAP_START) loaded) \<and>
        (\<forall>p \<in> set loaded. unat (Vaddr p) + unat (Memsz p) < unat HEAP_START \<and>
           length (take (unat (Filesz p)) (Contents p) @
                   replicate (unat (Memsz p) - unat (Filesz p)) 0) \<le> unat (Memsz p)))"
proof -
  let ?run = "LoadELF maxAlloc setMemoryRange initState f"
  let ?bad = "\<lambda>p. invalidFileSize p \<or> reachesHeap p"
  have loaded: "loaded = filter (\<lambda>p. \<not> skipped p) (Progs f)"
    by (simp add: assms(1) skipped_def)
  have fits: "\<forall>p \<in> set (filter (\<lambda>p. \<not> skipped p) (Progs f)). endFits maxAlloc p"
    using assms(2) by (simp add: loaded endFits_def)
  have run: "?run = LoadELF_loop maxAlloc setMemoryRange 0 (Progs f) (initState (Entry f) HEAP_START)"
    by (simp add: LoadELF_def Let_def)
  have heap: "unat HEAP_START = 0x1000000000000000"
    by (simp add: HEAP_START_def)
  have rejected: "\<exists>e. ?run = Err e" if "\<exists>p \<in> set loaded. ?bad p"
    using that LoadELF_loop_some_rejected [OF assms(3) fits] by (simp add: run loaded)
  have accepted: "?run =
      Val (foldl (\<lambda>s p. write (Vaddr p) (segmentBytes p) s) (initState (Entry f) HEAP_START)
             loaded)" if "\<not> (\<exists>p \<in> set loaded. ?bad p)"
  proof -
    from that fits have "\<forall>p \<in> set (filter (\<lambda>p. \<not> skipped p) (Progs f)).
        endFits maxAlloc p \<and> \<not> invalidFileSize p \<and> \<not> reachesHeap p"
      by (auto simp: loaded)
    from LoadELF_loop_all_valid [OF assms(3) this] show ?thesis
      by (simp add: run loaded)
  qed
  have iff: "(\<exists>e. ?run = Err e) \<longleftrightarrow> (\<exists>p \<in> set loaded. ?bad p)"
  proof
    assume "\<exists>e. ?run = Err e"
    then show "\<exists>p \<in> set loaded. ?bad p"
      using accepted by fastforce
  next
    assume "\<exists>p \<in> set loaded. ?bad p"
    then show "\<exists>e. ?run = Err e"
      by (rule rejected)
  qed
  have no_panic: "\<forall>c. ?run \<noteq> Panic c"
  proof (cases "\<exists>p \<in> set loaded. ?bad p")
    case True
    then obtain e where "?run = Err e"
      using rejected by blast
    then show ?thesis by simp
  next
    case False
    then show ?thesis
      by (simp add: accepted)
  qed
  have below: "\<forall>p \<in> set loaded. unat (Vaddr p) + unat (Memsz p) < unat HEAP_START \<and>
      length (segmentBytes p) \<le> unat (Memsz p)" if "\<not> (\<exists>e. ?run = Err e)"
  proof
    fix p
    assume p: "p \<in> set loaded"
    with that iff have ok: "\<not> invalidFileSize p" "\<not> reachesHeap p"
      by auto
    from ok(1) have "unat (Filesz p) \<le> unat (Memsz p)"
      by (auto simp: invalidFileSize_def split: if_splits)
    then have "length (segmentBytes p) \<le> unat (Memsz p)"
      by (simp add: segmentBytes_def)
    with ok(2) show "unat (Vaddr p) + unat (Memsz p) < unat HEAP_START \<and>
        length (segmentBytes p) \<le> unat (Memsz p)"
      by (simp add: reachesHeap_def)
  qed
  from heap iff no_panic accepted below show ?thesis
    unfolding invalidFileSize_def reachesHeap_def segmentBytes_def
    by blast
qed

lemma LoadELF_outcome_example:
  "LoadELF (2 ^ 48) logWrite logInit exampleFile =
     Val (0x400000, 0x1000000000000000, [(0x10000, [1, 2, 0, 0]), (0x20000, [9])])"
proof -
  let ?loaded = "[\<lparr>Type = 1, Vaddr = 0x10000, Filesz = 2, Memsz = 4, Contents = [1, 2, 3]\<rparr>,
       \<lparr>Type = 4, Vaddr = 0x20000, Filesz = 1, Memsz = 1, Contents = [9 :: byte]\<rparr>]"
  let ?log = "\<lambda>a r (s :: u64 \<times> u64 \<times> (u64 \<times> byte list) list).
      (fst s, fst (snd s), snd (snd s) @ [(a, r)])"
  have h1: "?loaded = filter (\<lambda>p. Type p \<noteq> 0x70000003) (Progs exampleFile)"
    by (simp add: exampleFile_def)
  have h2: "\<forall>p \<in> set ?loaded. unat (Vaddr p) + unat (Memsz p) < 2 ^ 64 \<and>
           unat (Memsz p) - unat (Filesz p) < 2 ^ 63 \<and>
           unat (Memsz p) - unat (Filesz p) \<le> 2 ^ 48"
    by simp
  have h3: "\<forall>a r s. logWrite a r s = Some (?log a r s)"
    by (simp add: logWrite_def)
  let ?run = "LoadELF (2 ^ 48) logWrite logInit exampleFile"
  note outcome = LoadELF_outcome [where initState = logInit, OF h1 h2 h3]
  from outcome have iff: "(\<exists>e. ?run = Err e) \<longleftrightarrow>
      (\<exists>p \<in> set ?loaded.
         (if Type p = PT_LOAD then unat (Memsz p) < unat (Filesz p)
          else unat (Filesz p) \<noteq> unat (Memsz p)) \<or>
         unat HEAP_START \<le> unat (Vaddr p) + unat (Memsz p))"
    by blast
  have "\<not> (\<exists>p \<in> set ?loaded.
         (if Type p = PT_LOAD then unat (Memsz p) < unat (Filesz p)
          else unat (Filesz p) \<noteq> unat (Memsz p)) \<or>
         unat HEAP_START \<le> unat (Vaddr p) + unat (Memsz p))"
    by (simp add: PT_LOAD_def HEAP_START_def)
  with iff have ok: "\<not> (\<exists>e. ?run = Err e)"
    by simp
  with outcome have "?run =
      Val (foldl (\<lambda>s p. ?log (Vaddr p)
                           (take (unat (Filesz p)) (Contents p) @
                            replicate (unat (Memsz p) - unat (Filesz p)) 0) s)
             (logInit (Entry exampleFile) HEAP_START) ?loaded)"
    by blast
  moreover have "replicate 2 (0 :: byte) = [0, 0]"
    by (simp add: numeral_2_eq_2)
  ultimately show ?thesis
    by (simp add: HEAP_START_def logInit_def exampleFile_def)
qed

text \<open>
  C7. The claim says that a segment lying entirely below \<^verbatim>\<open>HEAP_START\<close> is not rejected by
  the heap check. A \<^verbatim>\<open>PT_LOAD\<close> segment of one byte at address \<^verbatim>\<open>HEAP_START - 1\<close>, with equal file
  and memory size, lies entirely below \<^verbatim>\<open>HEAP_START\<close>: its end address is \<^verbatim>\<open>HEAP_START\<close>.
  \<^verbatim>\<open>LoadELF\<close> returns the error "overlaps with heap" for it, whatever the allocator limit
  and before any write.
\<close>

theorem LoadELF_rejects_segment_ending_at_HEAP_START:
  "LoadELF maxAlloc logWrite logInit
     \<lparr>Entry = 0,
      Progs = [\<lparr>Type = PT_LOAD, Vaddr = 0x0FFFFFFFFFFFFFFF, Filesz = 1, Memsz = 1,
                Contents = [0x2a]\<rparr>]\<rparr> =
     Err (OverlapsWithHeap 0 0x0FFFFFFFFFFFFFFF 0x1000000000000000 1) \<and>
   unat (0x0FFFFFFFFFFFFFFF :: u64) + unat (1 :: u64) \<le> unat HEAP_START"
  by (simp add: LoadELF_def LoadELF_loop.simps segmentReader_def sectionReader_def
      HEAP_START_def PT_LOAD_def Let_def)

text \<open>
  The sum of the heap check wraps around: a segment of one byte at the last address is
  accepted and written there, above \<^verbatim>\<open>HEAP_START\<close>.
\<close>

lemma LoadELF_accepts_segment_wrapping_around:
  "LoadELF maxAlloc logWrite logInit
     \<lparr>Entry = 0,
      Progs = [\<lparr>Type = PT_LOAD, Vaddr = 0xFFFFFFFFFFFFFFFF, Filesz = 1, Memsz = 1,
                Contents = [0x2a]\<rparr>]\<rparr> =
     Val (0, HEAP_START, [(0xFFFFFFFFFFFFFFFF, [0x2a])])"
  by (simp add: LoadELF_def LoadELF_loop.simps segmentReader_def sectionReader_def
      HEAP_START_def PT_LOAD_def Let_def logWrite_def logInit_def)

text \<open>
  Two more runs: a padding of \<open>2^49\<close> bytes exceeds the allocator limit \<open>2^48\<close> and panics
  before the heap check; a \<^verbatim>\<open>Filesz\<close> above \<open>2^63\<close> leaves the section reader unbounded, so all
  of \<open>Contents\<close> is written (here the end address wraps around to 1).
\<close>

lemma LoadELF_padding_beyond_limit_panics:
  "LoadELF (2 ^ 48) logWrite logInit
     \<lparr>Entry = 0,
      Progs = [\<lparr>Type = PT_LOAD, Vaddr = 0, Filesz = 0, Memsz = 0x2000000000000,
                Contents = []\<rparr>]\<rparr> =
     Panic MakeSliceLenOutOfRange"
  by (simp add: LoadELF_def LoadELF_loop.simps segmentReader_def sectionReader_def
      PT_LOAD_def Let_def)

lemma LoadELF_unbounded_section_reader:
  "LoadELF maxAlloc logWrite logInit
     \<lparr>Entry = 0,
      Progs = [\<lparr>Type = PT_LOAD, Vaddr = 0x8000000000000000, Filesz = 0x8000000000000001,
                Memsz = 0x8000000000000001, Contents = [1, 2, 3]\<rparr>]\<rparr> =
     Val (0, HEAP_START, [(0x8000000000000000, [1, 2, 3])])"
  by (simp add: LoadELF_def LoadELF_loop.simps segmentReader_def sectionReader_def
      HEAP_START_def PT_LOAD_def Let_def logWrite_def logInit_def)

end
